theory Spec2Isabelle
  imports Complex_Main
begin


section \<open>Python values shared by the agents\<close>

text \<open>
  Strings are lists of 8-bit characters (the Latin-1 range of Python's \<^verbatim>\<open>str\<close>).
  A Python \<^verbatim>\<open>dict\<close> is an association list with pairwise distinct keys, in insertion
  order: \<^verbatim>\<open>d[k] = v\<close> replaces the value in place when \<^verbatim>\<open>k\<close> is present and appends
  otherwise, \<^verbatim>\<open>d.get(k)\<close> is \<^const>\<open>map_of\<close>, \<^verbatim>\<open>d.pop(k, None)\<close> drops the entry.
\<close>

type_synonym ('k, 'v) dict = "('k \<times> 'v) list"

fun dict_set :: "'k \<Rightarrow> 'v \<Rightarrow> ('k, 'v) dict \<Rightarrow> ('k, 'v) dict" where
  "dict_set k v [] = [(k, v)]"
| "dict_set k v ((k', v') # d) =
     (if k' = k then (k, v) # d else (k', v') # dict_set k v d)"

definition dict_pop :: "'k \<Rightarrow> ('k, 'v) dict \<Rightarrow> ('k, 'v) dict" where
  "dict_pop k d = filter (\<lambda>kv. fst kv \<noteq> k) d"

section \<open>Detection agent: \<^verbatim>\<open>src/agents/detection_agent.py\<close>\<close>

subsection \<open>The string operations used by \<^verbatim>\<open>calculate_bbox_area\<close>\<close>

text \<open>\<^verbatim>\<open>s.strip("()")\<close>: parentheses are removed from both ends.\<close>

definition is_paren :: "char \<Rightarrow> bool" where
  "is_paren c = (c = CHR ''('' \<or> c = CHR '')'')"

definition strip_with :: "(char \<Rightarrow> bool) \<Rightarrow> string \<Rightarrow> string" where
  "strip_with p s = rev (dropWhile p (rev (dropWhile p s)))"

text \<open>
  \<^verbatim>\<open>s.split(sep)\<close> for a non-empty separator: the occurrences of \<^verbatim>\<open>sep\<close> are
  found from the left, without overlap; \<open>cur\<close> is the piece being collected.
\<close>

function split_str :: "string \<Rightarrow> string \<Rightarrow> string \<Rightarrow> string list" where
  "split_str sep cur [] = [cur]"
| "split_str sep cur (c # cs) =
     (if sep \<noteq> [] \<and> take (length sep) (c # cs) = sep
      then cur # split_str sep [] (drop (length sep) (c # cs))
      else split_str sep (cur @ [c]) cs)"
  by pat_completeness auto
termination
  by (relation "measure (\<lambda>(sep, cur, s). length s)") auto

text \<open>
  \<^verbatim>\<open>int(s)\<close> on a string: white space is stripped from both ends (the characters
  9 to 13, 32, 133 and 160; the separators 28 to 31 are not stripped), one sign is
  allowed, then decimal digits, where single underscores may stand between digits. A
  text of more than 4300 digits is refused (the interpreter's default limit). \<open>None\<close>
  is \<^verbatim>\<open>ValueError\<close>.
\<close>

definition is_space :: "char \<Rightarrow> bool" where
  "is_space c =
     (let n = (of_char c :: nat)
      in (9 \<le> n \<and> n \<le> 13) \<or> n = 32 \<or> n = 133 \<or> n = 160)"

definition max_str_digits :: nat where
  "max_str_digits = 4300"

definition is_digit :: "char \<Rightarrow> bool" where
  "is_digit c = (let n = (of_char c :: nat) in 48 \<le> n \<and> n \<le> 57)"

definition digit_val :: "char \<Rightarrow> int" where
  "digit_val c = int (of_char c) - 48"

fun py_digits :: "int \<Rightarrow> string \<Rightarrow> int option" where
  "py_digits acc [] = Some acc"
| "py_digits acc (c # cs) =
     (if is_digit c then py_digits (acc * 10 + digit_val c) cs
      else if c = CHR ''_'' then
        (case cs of [] \<Rightarrow> None
         | d # _ \<Rightarrow> if is_digit d then py_digits acc cs else None)
      else None)"

definition py_unsigned :: "string \<Rightarrow> int option" where
  "py_unsigned s =
     (case s of [] \<Rightarrow> None
      | c # cs \<Rightarrow>
          if is_digit c \<and> length (filter is_digit s) \<le> max_str_digits
          then py_digits (digit_val c) cs else None)"

definition py_int :: "string \<Rightarrow> int option" where
  "py_int s =
     (case strip_with is_space s of [] \<Rightarrow> None
      | c # cs \<Rightarrow>
          if c = CHR ''-'' then map_option uminus (py_unsigned cs)
          else if c = CHR ''+'' then py_unsigned cs
          else py_unsigned (c # cs))"

text \<open>\<^verbatim>\<open>tuple(map(int, parts))\<close>: the first element that does not parse raises.\<close>

fun map_int :: "string list \<Rightarrow> int list option" where
  "map_int [] = Some []"
| "map_int (p # ps) =
     (case py_int p of None \<Rightarrow> None
      | Some n \<Rightarrow> (case map_int ps of None \<Rightarrow> None | Some ns \<Rightarrow> Some (n # ns)))"

subsection \<open>\<^verbatim>\<open>calculate_bbox_area\<close> and \<^verbatim>\<open>select_largest_instances\<close>\<close>

text \<open>
  Every exception inside \<^verbatim>\<open>calculate_bbox_area\<close> (a part that is no integer, a
  number of parts other than four) is caught and gives \<^verbatim>\<open>0.0\<close>. Python compares
  \<^verbatim>\<open>int\<close> and \<^verbatim>\<open>float\<close> by value, so the result is an \<open>int\<close> here and \<^verbatim>\<open>0.0\<close> is \<open>0\<close>.
\<close>

definition parse_coords :: "string \<Rightarrow> int list option" where
  "parse_coords coords_str = map_int (split_str '', '' [] (strip_with is_paren coords_str))"

definition calculate_bbox_area :: "string \<Rightarrow> int" where
  "calculate_bbox_area coords_str =
     (case parse_coords coords_str of
        Some [x_min, y_min, x_max, y_max] \<Rightarrow> (x_max - x_min) * (y_max - y_min)
      | _ \<Rightarrow> 0)"

text \<open>One pass of the first loop: \<open>class_largest\<close> maps a class name to (key, area).\<close>

definition largest_step ::
  "(string, string \<times> int) dict \<Rightarrow> string \<times> string \<Rightarrow> (string, string \<times> int) dict" where
  "largest_step class_largest kc =
     (case kc of (coords_key, class_name) \<Rightarrow>
        let area = calculate_bbox_area coords_key
        in case map_of class_largest class_name of
             None \<Rightarrow> dict_set class_name (coords_key, area) class_largest
           | Some (current_coords_key, current_area) \<Rightarrow>
               if area > current_area
               then dict_set class_name (coords_key, area) class_largest
               else class_largest)"

definition filtered_step ::
  "(string, string) dict \<Rightarrow> string \<times> string \<times> int \<Rightarrow> (string, string) dict" where
  "filtered_step filtered_detections entry =
     (case entry of (class_name, coords_key, area) \<Rightarrow>
        dict_set coords_key class_name filtered_detections)"

definition select_largest_instances :: "(string, string) dict \<Rightarrow> (string, string) dict" where
  "select_largest_instances all_detections =
     foldl filtered_step [] (foldl largest_step [] all_detections)"

text \<open>
  The entry kept for a class, as a property of the input order: \<open>(k, c)\<close> occurs in
  \<open>xs\<close>, every entry of class \<open>c\<close> before it has a strictly smaller area and every
  entry of class \<open>c\<close> after it has an area that is not larger.
\<close>

definition first_largest :: "(string \<times> string) list \<Rightarrow> string \<Rightarrow> string \<Rightarrow> bool" where
  "first_largest xs k c \<longleftrightarrow>
     (\<exists>ys zs. xs = ys @ (k, c) # zs
        \<and> (\<forall>k'. (k', c) \<in> set ys \<longrightarrow> calculate_bbox_area k' < calculate_bbox_area k)
        \<and> (\<forall>k'. (k', c) \<in> set zs \<longrightarrow> calculate_bbox_area k' \<le> calculate_bbox_area k))"

text \<open>
  An input with a tie (two laptops of area 10000), a key of three parts, and a key
  with the separator character 28 before a digit, which \<^verbatim>\<open>int\<close> refuses.
\<close>

definition example_detections :: "(string, string) dict" where
  "example_detections =
     [(''(0, 0, 100, 100)'', ''laptop''), (''(0, 0, 50, 50)'', ''laptop''),
      (''(10, 10, 30, 30)'', ''bottle''), (''(50, 50, 150, 150)'', ''laptop''),
      (''(1, 2, 3)'', ''cup''), (''(7, 7, 9, 9)'', ''cup''),
      (''(0, 0, '' @ [CHR 0x1C] @ ''5, 4)'', ''book''), (''(0, 0, 1, 1)'', ''book'')]"

section \<open>API message models: \<^verbatim>\<open>src/agents/api_message_models.py\<close>\<close>

text \<open>
  A value of Python's \<^verbatim>\<open>Any\<close>. \<open>PyBytes\<close> is a \<^verbatim>\<open>bytes\<close> or \<^verbatim>\<open>bytearray\<close> object.
  \<open>PyObject\<close> stands for an object of another built-in type (a tuple, a set, a
  function), named by its \<^verbatim>\<open>repr\<close>; none of these types has a method \<^verbatim>\<open>lower\<close>.
\<close>

datatype py_value =
    PyNone
  | PyBool bool
  | PyInt int
  | PyFloat real
  | PyStr string
  | PyBytes string
  | PyList "py_value list"
  | PyDict "(string \<times> py_value) list"
  | PyObject string

record ImageRecognitionRequest =
  irq_image_base64 :: string
  irq_session_id :: string
  irq_request_id :: string

record ImageRecognitionResult =
  irr_session_id :: string
  irr_request_id :: string
  irr_success :: bool
  irr_product_name :: "string option"
  irr_source_url :: "string option"
  irr_host :: "string option"
  irr_pricing :: "(string, py_value) dict option"
  irr_rating :: "(string, py_value) dict option"
  irr_error_message :: "string option"

record PriceResearchRequest =
  prq_product_name :: string
  prq_platforms :: "string list"
  prq_condition_filter :: string
  prq_session_id :: string
  prq_request_id :: string

text \<open>
  The coordinator never looks inside a price comparison or a price summary; they are
  carried as values.
\<close>

record PriceResearchResult =
  prr_session_id :: string
  prr_request_id :: string
  prr_success :: bool
  prr_query :: "string option"
  prr_comps :: "py_value list"
  prr_summary :: "py_value option"
  prr_currency :: string
  prr_total_found :: int
  prr_error_message :: "string option"

record ListingResult =
  lr_platform :: string
  lr_success :: bool
  lr_status :: "string option"
  lr_listing_url :: "string option"
  lr_listing_id :: "string option"
  lr_message :: "string option"
  lr_error_message :: "string option"

record ListingCreationResult =
  lcr_session_id :: string
  lcr_request_id :: string
  lcr_success :: bool
  lcr_listings :: "ListingResult list"
  lcr_listing_data :: "(string, py_value) dict option"
  lcr_summary :: "(string, py_value) dict option"
  lcr_error_message :: "string option"

record CompletePipelineRequest =
  cpr_image_base64 :: string
  cpr_target_platforms :: "string list"
  cpr_condition_filter :: string
  cpr_product_condition :: string
  cpr_session_id :: string

record CompletePipelineResult =
  res_session_id :: string
  res_success :: bool
  res_steps_completed :: "string list"
  res_image_recognition :: "ImageRecognitionResult option"
  res_price_research :: "PriceResearchResult option"
  res_listing_creation :: "ListingCreationResult option"
  res_error_message :: "string option"
  res_total_execution_time_ms :: "int option"

section \<open>Pipeline coordinator: \<^verbatim>\<open>src/agents/pipeline_coordinator_agent.py\<close>\<close>

text \<open>
  \<^verbatim>\<open>time.time()\<close> is a parameter \<open>now\<close> of every function that reads the clock; a
  time is a real number of seconds.
\<close>

record PipelineSession =
  request :: CompletePipelineRequest
  start_time :: real
  steps_completed :: "string list"
  image_recognition_result :: "ImageRecognitionResult option"
  price_research_result :: "PriceResearchResult option"
  listing_creation_result :: "ListingCreationResult option"
  error_message :: "string option"
  completed :: bool

record PipelineState =
  active_sessions :: "(string, PipelineSession) dict"
  completed_sessions :: int
  failed_sessions :: int

definition new_PipelineSession :: "real \<Rightarrow> CompletePipelineRequest \<Rightarrow> PipelineSession" where
  "new_PipelineSession now req =
     \<lparr>request = req, start_time = now, steps_completed = [],
      image_recognition_result = None, price_research_result = None,
      listing_creation_result = None, error_message = None, completed = False\<rparr>"

definition new_PipelineState :: PipelineState where
  "new_PipelineState = \<lparr>active_sessions = [], completed_sessions = 0, failed_sessions = 0\<rparr>"

text \<open>\<^verbatim>\<open>int(x)\<close> on a float truncates towards zero.\<close>

definition py_trunc :: "real \<Rightarrow> int" where
  "py_trunc r = (if 0 \<le> r then \<lfloor>r\<rfloor> else \<lceil>r\<rceil>)"

text \<open>An optional string inside an f-string: \<^verbatim>\<open>None\<close> is printed as \<^verbatim>\<open>None\<close>.\<close>

definition str_optional :: "string option \<Rightarrow> string" where
  "str_optional s = (case s of None \<Rightarrow> ''None'' | Some t \<Rightarrow> t)"

text \<open>
  \<^verbatim>\<open>finalize_pipeline_session\<close> receives the session object and changes it and the
  counters of the global state; it returns them here, with the result it composed
  (lines 189 to 198; \<open>None\<close> when it returns at the guard of line 183).
\<close>

definition finalize_pipeline_session ::
  "real \<Rightarrow> PipelineState \<Rightarrow> PipelineSession \<Rightarrow> bool \<Rightarrow> string option
     \<Rightarrow> PipelineState \<times> PipelineSession \<times> CompletePipelineResult option" where
  "finalize_pipeline_session now st session success err =
     (if completed session then (st, session, None)
      else
        let execution_time = py_trunc ((now - start_time session) * 1000);
            result = \<lparr>res_session_id = cpr_session_id (request session),
                      res_success = success,
                      res_steps_completed = steps_completed session,
                      res_image_recognition = image_recognition_result session,
                      res_price_research = price_research_result session,
                      res_listing_creation = listing_creation_result session,
                      res_error_message = err,
                      res_total_execution_time_ms = Some execution_time\<rparr>;
            session' = session\<lparr>completed := True\<rparr>;
            st' = (if success
                   then st\<lparr>completed_sessions := completed_sessions st + 1\<rparr>
                   else st\<lparr>failed_sessions := failed_sessions st + 1\<rparr>)
        in (st', session', Some result))"

text \<open>
  The handlers change the session object that the dict holds under the message's
  session id: \<open>put_session\<close> writes the changed object back at its key, and
  \<open>finalize_stored\<close> is the call of \<^const>\<open>finalize_pipeline_session\<close> on that object.
\<close>

definition put_session :: "string \<Rightarrow> PipelineSession \<Rightarrow> PipelineState \<Rightarrow> PipelineState" where
  "put_session sid session st = st\<lparr>active_sessions := dict_set sid session (active_sessions st)\<rparr>"

definition finalize_stored ::
  "real \<Rightarrow> PipelineState \<Rightarrow> string \<Rightarrow> PipelineSession \<Rightarrow> bool \<Rightarrow> string option
     \<Rightarrow> PipelineState \<times> CompletePipelineResult option" where
  "finalize_stored now st sid session success err =
     (case finalize_pipeline_session now st session success err of
        (st', session', result) \<Rightarrow> (put_session sid session' st', result))"

definition handle_image_recognition_result ::
  "real \<Rightarrow> PipelineState \<Rightarrow> ImageRecognitionResult
     \<Rightarrow> PipelineState \<times> CompletePipelineResult option" where
  "handle_image_recognition_result now st msg =
     (case map_of (active_sessions st) (irr_session_id msg) of
        None \<Rightarrow> (st, None)
      | Some session \<Rightarrow>
          let session1 = session\<lparr>image_recognition_result := Some msg,
                   steps_completed := steps_completed session @ [''image_recognition_completed'']\<rparr>
          in if \<not> irr_success msg then
               finalize_stored now st (irr_session_id msg) session1 False
                 (Some (''Image recognition failed: '' @ str_optional (irr_error_message msg)))
             else if irr_product_name msg = None \<or> irr_product_name msg = Some [] then
               finalize_stored now st (irr_session_id msg) session1 False
                 (Some ''No product identified in image'')
             else (put_session (irr_session_id msg) session1 st, None))"

definition handle_price_research_result ::
  "real \<Rightarrow> PipelineState \<Rightarrow> PriceResearchResult
     \<Rightarrow> PipelineState \<times> CompletePipelineResult option" where
  "handle_price_research_result now st msg =
     (case map_of (active_sessions st) (prr_session_id msg) of
        None \<Rightarrow> (st, None)
      | Some session \<Rightarrow>
          let session1 = session\<lparr>price_research_result := Some msg,
                   steps_completed := steps_completed session @ [''price_research_completed'']\<rparr>
          in if \<not> prr_success msg then
               finalize_stored now st (prr_session_id msg) session1 False
                 (Some (''Price research failed: '' @ str_optional (prr_error_message msg)))
             else (put_session (prr_session_id msg) session1 st, None))"

definition handle_listing_creation_result ::
  "real \<Rightarrow> PipelineState \<Rightarrow> ListingCreationResult
     \<Rightarrow> PipelineState \<times> CompletePipelineResult option" where
  "handle_listing_creation_result now st msg =
     (case map_of (active_sessions st) (lcr_session_id msg) of
        None \<Rightarrow> (st, None)
      | Some session \<Rightarrow>
          let session1 = session\<lparr>listing_creation_result := Some msg,
                   steps_completed := steps_completed session @ [''listing_creation_completed'']\<rparr>
          in if \<not> lcr_success msg then
               finalize_stored now st (lcr_session_id msg) session1 False
                 (Some (''Listing creation failed: '' @ str_optional (lcr_error_message msg)))
             else finalize_stored now st (lcr_session_id msg) session1 True None)"

text \<open>
  \<^verbatim>\<open>handle_complete_pipeline_request\<close>: \<open>send_ok\<close> says whether the send of line 83
  returned or raised, \<open>request_id\<close> is the identifier drawn at line 70.
\<close>

datatype coordinator_output =
    ToImageRecognition ImageRecognitionRequest
  | ToSender CompletePipelineResult

definition handle_complete_pipeline_request ::
  "real \<Rightarrow> bool \<Rightarrow> string \<Rightarrow> string \<Rightarrow> PipelineState \<Rightarrow> CompletePipelineRequest
     \<Rightarrow> PipelineState \<times> coordinator_output list" where
  "handle_complete_pipeline_request now send_ok request_id exn st msg =
     (let session = new_PipelineSession now msg;
          st1 = put_session (cpr_session_id msg) session st
      in if send_ok then
           (put_session (cpr_session_id msg)
              (session\<lparr>steps_completed := steps_completed session @ [''image_recognition_initiated'']\<rparr>)
              st1,
            [ToImageRecognition
               \<lparr>irq_image_base64 = cpr_image_base64 msg,
                irq_session_id = cpr_session_id msg,
                irq_request_id = request_id\<rparr>])
         else
           (st1\<lparr>active_sessions := dict_pop (cpr_session_id msg) (active_sessions st1),
                failed_sessions := failed_sessions st1 + 1\<rparr>,
            [ToSender
               \<lparr>res_session_id = cpr_session_id msg,
                res_success = False,
                res_steps_completed = [],
                res_image_recognition = None,
                res_price_research = None,
                res_listing_creation = None,
                res_error_message = Some (''Pipeline initiation failed: '' @ exn),
                res_total_execution_time_ms = None\<rparr>]))"

text \<open>
  \<^verbatim>\<open>cleanup_old_sessions\<close>: the first loop collects the ids to remove and counts the
  stalled sessions, the second loop pops the collected ids.
\<close>

definition sweep_step ::
  "real \<Rightarrow> string list \<times> int \<Rightarrow> string \<times> PipelineSession \<Rightarrow> string list \<times> int" where
  "sweep_step current_time acc item =
     (case acc of (sessions_to_remove, failed) \<Rightarrow>
      case item of (session_id, session) \<Rightarrow>
        let session_age = current_time - start_time session
        in if completed session \<and> session_age > 300 then
             (sessions_to_remove @ [session_id], failed)
           else if \<not> completed session \<and> session_age > 900 then
             (sessions_to_remove @ [session_id], failed + 1)
           else (sessions_to_remove, failed))"

definition cleanup_old_sessions :: "real \<Rightarrow> PipelineState \<Rightarrow> PipelineState" where
  "cleanup_old_sessions current_time st =
     (case foldl (sweep_step current_time) ([], failed_sessions st) (active_sessions st) of
        (sessions_to_remove, failed) \<Rightarrow>
          st\<lparr>active_sessions := foldl (\<lambda>d session_id. dict_pop session_id d)
                                    (active_sessions st) sessions_to_remove,
             failed_sessions := failed\<rparr>)"

text \<open>
  The state the specification asks of a swept stalled session: still stored, terminal,
  with the reason \<^verbatim>\<open>stalled\<close>.
\<close>

definition failed_as_stalled :: "PipelineState \<Rightarrow> string \<Rightarrow> bool" where
  "failed_as_stalled st sid =
     (case map_of (active_sessions st) sid of
        None \<Rightarrow> False
      | Some session \<Rightarrow> completed session \<and> error_message session = Some ''stalled'')"

text \<open>The sessions that \<^const>\<open>cleanup_old_sessions\<close> removes, and those it counts as failed.\<close>

definition swept :: "real \<Rightarrow> PipelineSession \<Rightarrow> bool" where
  "swept current_time session =
     ((completed session \<and> current_time - start_time session > 300)
      \<or> (\<not> completed session \<and> current_time - start_time session > 900))"

definition stalled :: "real \<Rightarrow> string \<times> PipelineSession \<Rightarrow> bool" where
  "stalled current_time item =
     (\<not> completed (snd item) \<and> current_time - start_time (snd item) > 900)"

text \<open>Example states: a request, a finished session, a session that never got a reply.\<close>

definition example_request :: "string \<Rightarrow> CompletePipelineRequest" where
  "example_request sid =
     \<lparr>cpr_image_base64 = ''aGVsbG8='', cpr_target_platforms = [''facebook'', ''ebay''],
      cpr_condition_filter = ''all'', cpr_product_condition = ''used'', cpr_session_id = sid\<rparr>"

definition example_recognition :: "string \<Rightarrow> ImageRecognitionResult" where
  "example_recognition sid =
     \<lparr>irr_session_id = sid, irr_request_id = ''pipeline_1_ab12cd34'', irr_success = True,
      irr_product_name = Some ''Dell XPS 13'', irr_source_url = None, irr_host = None,
      irr_pricing = None, irr_rating = None, irr_error_message = None\<rparr>"

definition example_price_failure :: "string \<Rightarrow> PriceResearchResult" where
  "example_price_failure sid =
     \<lparr>prr_session_id = sid, prr_request_id = ''pipeline_1_ab12cd34'', prr_success = False,
      prr_query = None, prr_comps = [], prr_summary = None, prr_currency = ''USD'',
      prr_total_found = 0, prr_error_message = Some ''TIMEOUT''\<rparr>"

definition example_listing :: "string \<Rightarrow> ListingCreationResult" where
  "example_listing sid =
     \<lparr>lcr_session_id = sid, lcr_request_id = ''pipeline_1_ab12cd34'', lcr_success = True,
      lcr_listings = [], lcr_listing_data = None, lcr_summary = None,
      lcr_error_message = None\<rparr>"

definition example_no_product :: ImageRecognitionResult where
  "example_no_product = (example_recognition ''s1'')\<lparr>irr_product_name := None\<rparr>"

definition done_session :: PipelineSession where
  "done_session =
     (new_PipelineSession 0 (example_request ''s1''))
       \<lparr>steps_completed := [''image_recognition_initiated'', ''image_recognition_completed''],
        image_recognition_result := Some example_no_product,
        completed := True\<rparr>"

definition waiting_session :: PipelineSession where
  "waiting_session =
     (new_PipelineSession 50 (example_request ''s2''))
       \<lparr>steps_completed := [''image_recognition_initiated'', ''image_recognition_completed''],
        image_recognition_result := Some (example_recognition ''s2'')\<rparr>"

definition example_state :: PipelineState where
  "example_state =
     \<lparr>active_sessions = [(''s1'', done_session), (''s2'', waiting_session)],
      completed_sessions = 0, failed_sessions = 1\<rparr>"

section \<open>The camera pipeline\<close>

text \<open>
  What the agents of the camera pipeline get from outside is collected in one record:
  whether a path exists, what the detector returns for an image, the order in which
  Python iterates over a set of class names, the reply of the vision model, what
  \<^verbatim>\<open>eval\<close> does with a string, what the message class makes of a value that is no
  string where it expects one, whether opening, cropping and saving an image works,
  and whether a report file can be written.
\<close>

datatype prediction = Boxes "(string \<times> int \<times> int \<times> int \<times> int) list" | PredictError

datatype gemini_outcome = GeminiReply string | GeminiError

text \<open>
  \<^verbatim>\<open>eval(s)\<close> at line 179 runs the text inside the handler. It returns a value
  (\<open>EvalValue\<close>) or raises an \<^verbatim>\<open>Exception\<close>, a \<^verbatim>\<open>SyntaxError\<close> or a \<^verbatim>\<open>NameError\<close>
  (\<open>EvalRaised\<close>), in both cases leaving the objects of the handler as they are; or
  it raises outside of \<^verbatim>\<open>Exception\<close>, as \<^verbatim>\<open>exit()\<close> does with \<^verbatim>\<open>SystemExit\<close>, which
  no \<^verbatim>\<open>except Exception\<close> catches (\<open>EvalExit\<close>); or it changes the message, the
  context or the state of the agent, or returns objects with methods of their own
  (\<open>EvalInterferes\<close>). What the handler does after an interference is not determined
  by the text of the handler; the model says so with the result \<open>Undetermined\<close>.
\<close>

datatype eval_outcome = EvalValue py_value | EvalRaised | EvalExit | EvalInterferes

datatype handler_exit = SystemExit | Undetermined

record environment =
  file_exists :: "string \<Rightarrow> bool"
  yolo_predict :: "string \<Rightarrow> prediction"
  set_order :: "string list \<Rightarrow> string list"
  gemini_reply :: "string \<Rightarrow> gemini_outcome"
  py_eval :: "string \<Rightarrow> eval_outcome"
  coerce_str :: "py_value \<Rightarrow> string option"
  crop_saves :: "string \<Rightarrow> int list \<Rightarrow> bool"
  report_writes :: "string \<Rightarrow> bool"

text \<open>\<^verbatim>\<open>str(n)\<close> for an integer, and \<^verbatim>\<open>str(t)\<close> for a tuple of four integers.\<close>

fun str_nat :: "nat \<Rightarrow> string" where
  "str_nat n =
     (if n < 10 then [char_of (48 + n)] else str_nat (n div 10) @ [char_of (48 + n mod 10)])"

declare str_nat.simps [simp del]

definition str_int :: "int \<Rightarrow> string" where
  "str_int i = (if i < 0 then CHR ''-'' # str_nat (nat (- i)) else str_nat (nat i))"

definition str_coords :: "int \<times> int \<times> int \<times> int \<Rightarrow> string" where
  "str_coords t =
     (case t of (a, b, c, d) \<Rightarrow>
        ''('' @ str_int a @ '', '' @ str_int b @ '', '' @ str_int c @ '', '' @ str_int d @ '')'')"

text \<open>
  \<^verbatim>\<open>s.lower()\<close> on a string, on the characters of the model (ASCII and Latin-1
  capitals), and on a bytes object, where only the ASCII capitals change.
\<close>

definition lower_char :: "char \<Rightarrow> char" where
  "lower_char c =
     (let n = (of_char c :: nat)
      in if (65 \<le> n \<and> n \<le> 90) \<or> (192 \<le> n \<and> n \<le> 222 \<and> n \<noteq> 215)
         then char_of (n + 32) else c)"

definition str_lower :: "string \<Rightarrow> string" where
  "str_lower s = map lower_char s"

definition lower_byte :: "char \<Rightarrow> char" where
  "lower_byte c =
     (let n = (of_char c :: nat) in if 65 \<le> n \<and> n \<le> 90 then char_of (n + 32) else c)"

definition bytes_lower :: "string \<Rightarrow> string" where
  "bytes_lower b = map lower_byte b"

subsection \<open>Detection agent: \<^verbatim>\<open>process_captured_image\<close>\<close>

datatype YOLO = YOLO string

record CapturedImage =
  ci_filename :: string
  ci_timestamp :: int
  ci_file_path :: string
  ci_capture_index :: int
  ci_session_id :: string

record DetectionResult =
  dr_image_path :: string
  dr_timestamp :: int
  dr_session_id :: string
  dr_detected_objects :: "(string, string) dict"
  dr_unique_classes :: "string list"
  dr_detection_count :: int
  dr_largest_instances :: "(string, string) dict"

record DetectionState =
  yolo_model :: "YOLO option"
  det_images_processed :: int
  det_current_session :: string
  det_global_seen_objects :: "string set"
  processed_files :: "string set"

definition track_detection_session :: "string \<Rightarrow> DetectionState \<Rightarrow> DetectionState" where
  "track_detection_session sid st =
     (if det_current_session st \<noteq> sid
      then st\<lparr>det_current_session := sid, det_global_seen_objects := {}\<rparr> else st)"

definition collect_detections ::
  "(string \<times> int \<times> int \<times> int \<times> int) list \<Rightarrow> (string, string) dict" where
  "collect_detections boxes =
     foldl (\<lambda>all_detections box. dict_set (str_coords (snd box)) (fst box) all_detections)
       [] boxes"

text \<open>
  The handler returns the new state and the message it sends to the evaluator, if any.
  An exception of the detector is caught at line 211.
\<close>

definition process_captured_image ::
  "environment \<Rightarrow> DetectionState \<Rightarrow> CapturedImage \<Rightarrow> DetectionState \<times> DetectionResult option" where
  "process_captured_image env st msg =
     (if yolo_model st = None then (st, None)
      else if \<not> file_exists env (ci_file_path msg) then (st, None)
      else if ci_file_path msg \<in> processed_files st then (st, None)
      else
        let st1 = track_detection_session (ci_session_id msg)
                    (st\<lparr>processed_files := insert (ci_file_path msg) (processed_files st)\<rparr>)
        in case yolo_predict env (ci_file_path msg) of
             PredictError \<Rightarrow> (st1, None)
           | Boxes boxes \<Rightarrow>
               let all_detections = collect_detections boxes
               in if all_detections = [] then (st1, None)
                  else
                    let filtered_detections = select_largest_instances all_detections;
                        unique_object_names = set_order env (remdups (map snd filtered_detections))
                    in (st1\<lparr>det_images_processed := det_images_processed st1 + 1\<rparr>,
                        Some \<lparr>dr_image_path = ci_file_path msg,
                              dr_timestamp = ci_timestamp msg,
                              dr_session_id = ci_session_id msg,
                              dr_detected_objects = all_detections,
                              dr_unique_classes = unique_object_names,
                              dr_detection_count = int (length filtered_detections),
                              dr_largest_instances = filtered_detections\<rparr>))"

subsection \<open>AI evaluator agent: \<^verbatim>\<open>src/agents/ai_evaluator_agent.py\<close>\<close>

datatype GenerativeModel = GenerativeModel string

record EvaluationResult =
  er_image_path :: string
  er_timestamp :: int
  er_session_id :: string
  er_original_objects :: "string list"
  er_resellable_items :: "string list"
  er_evaluation_confidence :: string
  er_gemini_raw_response :: string
  er_filtered_detections :: "(string, string) dict"

record EvaluatorState =
  gemini_model :: "GenerativeModel option"
  images_evaluated :: int
  ev_current_session :: string
  api_calls_made :: int
  api_available :: bool

text \<open>
  \<^verbatim>\<open>process_image_and_objects_for_resale\<close>: the call counter is raised before the image
  is read and the model is asked; every exception after that gives \<^verbatim>\<open>"[]"\<close>. The
  reply is the stripped text of the response.
\<close>

definition process_image_and_objects_for_resale ::
  "environment \<Rightarrow> EvaluatorState \<Rightarrow> string \<Rightarrow> string list \<Rightarrow> EvaluatorState \<times> string" where
  "process_image_and_objects_for_resale env st image_path yolo_object_list =
     (if gemini_model st = None then (st, ''[]'')
      else
        let st1 = st\<lparr>api_calls_made := api_calls_made st + 1\<rparr>
        in case gemini_reply env image_path of
             GeminiReply raw_response \<Rightarrow> (st1, raw_response)
           | GeminiError \<Rightarrow> (st1, ''[]''))"

text \<open>
  Lines 177 to 185: the value of \<^verbatim>\<open>eval\<close> when it is a list, the empty list when it
  is another value or when \<^verbatim>\<open>eval\<close> raised an \<^verbatim>\<open>Exception\<close>.
\<close>

definition parse_resellable_names :: "eval_outcome \<Rightarrow> handler_exit + py_value list" where
  "parse_resellable_names outcome =
     (case outcome of
        EvalValue (PyList resellable_names) \<Rightarrow> Inr resellable_names
      | EvalValue _ \<Rightarrow> Inr []
      | EvalRaised \<Rightarrow> Inr []
      | EvalExit \<Rightarrow> Inl SystemExit
      | EvalInterferes \<Rightarrow> Inl Undetermined)"

text \<open>
  Line 188, \<^verbatim>\<open>[name.lower() for name in resellable_names]\<close>: a string and a bytes
  object have a method \<^verbatim>\<open>lower\<close>; on every other value the call raises
  \<^verbatim>\<open>AttributeError\<close> (\<open>None\<close>).
\<close>

fun py_lower :: "py_value \<Rightarrow> py_value option" where
  "py_lower (PyStr s) = Some (PyStr (str_lower s))"
| "py_lower (PyBytes b) = Some (PyBytes (bytes_lower b))"
| "py_lower v = None"

fun lower_names :: "py_value list \<Rightarrow> py_value list option" where
  "lower_names [] = Some []"
| "lower_names (name # names) =
     (case py_lower name of
        None \<Rightarrow> None
      | Some l \<Rightarrow> (case lower_names names of None \<Rightarrow> None | Some ls \<Rightarrow> Some (l # ls)))"

text \<open>
  Lines 196 to 199. \<^verbatim>\<open>class_name.lower() in resellable_names_normalized\<close> compares a
  string with the elements of the list: it is equal to a string of the same
  characters and to no bytes object.
\<close>

definition filter_step ::
  "py_value list \<Rightarrow> (string, string) dict \<Rightarrow> string \<times> string \<Rightarrow> (string, string) dict" where
  "filter_step resellable_names_normalized filtered_detections kc =
     (case kc of (coords_key, class_name) \<Rightarrow>
        if PyStr (str_lower class_name) \<in> set resellable_names_normalized
        then dict_set coords_key class_name filtered_detections
        else filtered_detections)"

definition filter_resellable ::
  "py_value list \<Rightarrow> (string, string) dict \<Rightarrow> (string, string) dict" where
  "filter_resellable resellable_names_normalized largest_instances =
     foldl (filter_step resellable_names_normalized) [] largest_instances"

text \<open>
  The message class checks \<^verbatim>\<open>resellable_items\<close> as a list of strings when the result
  is built at line 205: a string is taken as it is; what becomes of another value is
  up to the message library (\<open>coerce_str\<close>: the string it is converted to, or \<open>None\<close>
  when the value is refused, which raises).
\<close>

definition as_str :: "environment \<Rightarrow> py_value \<Rightarrow> string option" where
  "as_str env v = (case v of PyStr s \<Rightarrow> Some s | _ \<Rightarrow> coerce_str env v)"

fun validate_names :: "environment \<Rightarrow> py_value list \<Rightarrow> string list option" where
  "validate_names env [] = Some []"
| "validate_names env (v # vs) =
     (case as_str env v of
        None \<Rightarrow> None
      | Some s \<Rightarrow> (case validate_names env vs of None \<Rightarrow> None | Some ss \<Rightarrow> Some (s # ss)))"

definition track_evaluator_session :: "string \<Rightarrow> EvaluatorState \<Rightarrow> EvaluatorState" where
  "track_evaluator_session sid st =
     (if ev_current_session st \<noteq> sid then st\<lparr>ev_current_session := sid\<rparr> else st)"

text \<open>
  The handler returns the new state and the message it sends to the image processor,
  if any; \<open>Inl\<close> is an exception that leaves the handler, or the undetermined rest
  after an interference. The \<^verbatim>\<open>AttributeError\<close> of line 188 and a refusal by the
  message class at line 205 are caught at line 225; the counter of line 202 is raised
  between the two.
\<close>

definition evaluate_resellability ::
  "environment \<Rightarrow> EvaluatorState \<Rightarrow> DetectionResult
     \<Rightarrow> handler_exit + EvaluatorState \<times> EvaluationResult option" where
  "evaluate_resellability env st msg =
     (if gemini_model st = None then Inr (st, None)
      else if \<not> file_exists env (dr_image_path msg) then Inr (st, None)
      else
        case process_image_and_objects_for_resale env
               (track_evaluator_session (dr_session_id msg) st)
               (dr_image_path msg) (dr_unique_classes msg) of
          (st1, gemini_raw_result) \<Rightarrow>
            (case parse_resellable_names (py_eval env gemini_raw_result) of
               Inl exit \<Rightarrow> Inl exit
             | Inr resellable_names \<Rightarrow>
                 (case lower_names resellable_names of
                    None \<Rightarrow> Inr (st1, None)
                  | Some resellable_names_normalized \<Rightarrow>
                      (case validate_names env resellable_names of
                         None \<Rightarrow> Inr (st1\<lparr>images_evaluated := images_evaluated st1 + 1\<rparr>, None)
                       | Some resellable_items \<Rightarrow>
                           Inr (st1\<lparr>images_evaluated := images_evaluated st1 + 1\<rparr>,
                                Some \<lparr>er_image_path = dr_image_path msg,
                                      er_timestamp = dr_timestamp msg,
                                      er_session_id = dr_session_id msg,
                                      er_original_objects = dr_unique_classes msg,
                                      er_resellable_items = resellable_items,
                                      er_evaluation_confidence = ''high'',
                                      er_gemini_raw_response = gemini_raw_result,
                                      er_filtered_detections =
                                        filter_resellable resellable_names_normalized
                                          (dr_largest_instances msg)\<rparr>)))))"

subsection \<open>Image processor agent: \<^verbatim>\<open>src/agents/image_processor_agent.py\<close>\<close>

record crop_details =
  cd_coordinates :: "int list"
  cd_area :: int
  cd_cropped_file :: string
  cd_border_percentage :: real

record ProcessingResult =
  pr_original_image_path :: string
  pr_timestamp :: int
  pr_session_id :: string
  pr_resellable_objects :: "string list"
  pr_cropped_files :: "string list"
  pr_processing_summary :: "(string, crop_details) dict"
  pr_total_objects_processed :: int

record ProcessorState =
  proc_images_processed :: int
  total_crops_created :: int
  proc_current_session :: string
  session_crop_count :: int

definition CROPPED_FOLDER :: string where
  "CROPPED_FOLDER = ''cropped_resellables''"

definition CROP_BORDER_PERCENTAGE :: real where
  "CROP_BORDER_PERCENTAGE = 3 / 10"

text \<open>\<^verbatim>\<open>parse_coordinates\<close>: the tuple of the parsed parts, of any length, or four zeros.\<close>

definition parse_coordinates :: "string \<Rightarrow> int list" where
  "parse_coordinates coords_str =
     (case parse_coords coords_str of Some coords \<Rightarrow> coords | None \<Rightarrow> [0, 0, 0, 0])"

definition basename :: "string \<Rightarrow> string" where
  "basename p = rev (takeWhile (\<lambda>c. c \<noteq> CHR ''/'') (rev p))"

definition replace_spaces :: "string \<Rightarrow> string" where
  "replace_spaces s = map (\<lambda>c. if c = CHR '' '' then CHR ''_'' else c) s"

text \<open>
  \<^verbatim>\<open>crop_and_save_image\<close>: the path of the saved crop, or \<open>None\<close> when anything in
  the function raised: the image does not open, crop or save, or the tuple has not
  four parts. The pixels of the crop are not part of the model.
\<close>

definition crop_and_save_image ::
  "environment \<Rightarrow> string \<Rightarrow> int list \<Rightarrow> string \<Rightarrow> int \<Rightarrow> int \<Rightarrow> string option" where
  "crop_and_save_image env original_img_path coords class_name capture_ts crop_index =
     (if length coords = 4 \<and> crop_saves env original_img_path coords
      then Some (CROPPED_FOLDER @ ''/'' @ str_int capture_ts @ ''_'' @ str_int crop_index
                   @ ''_'' @ replace_spaces class_name @ ''.jpg'')
      else None)"

text \<open>The area of a parsed box; it is asked only for a tuple that was cropped.\<close>

definition tuple_bbox_area :: "int list \<Rightarrow> int" where
  "tuple_bbox_area coords =
     (case coords of [x_min, y_min, x_max, y_max] \<Rightarrow> (x_max - x_min) * (y_max - y_min)
      | _ \<Rightarrow> 0)"

record crop_loop =
  cl_cropped_files :: "string list"
  cl_crop_index :: int
  cl_resellable_objects_processed :: "string list"
  cl_processing_details :: "(string, crop_details) dict"
  cl_session_crop_count :: int

definition crop_step ::
  "environment \<Rightarrow> string \<Rightarrow> int \<Rightarrow> crop_loop \<Rightarrow> string \<times> string \<Rightarrow> crop_loop" where
  "crop_step env image_path ts acc kc =
     (case kc of (coords_str, class_name) \<Rightarrow>
        let coords = parse_coordinates coords_str
        in if coords = [0, 0, 0, 0] then acc
           else
             let acc1 = acc\<lparr>cl_crop_index := cl_crop_index acc + 1,
                             cl_session_crop_count := cl_session_crop_count acc + 1\<rparr>
             in case crop_and_save_image env image_path coords class_name ts
                       (cl_crop_index acc1) of
                  None \<Rightarrow> acc1
                | Some output_path \<Rightarrow>
                    acc1\<lparr>cl_cropped_files := cl_cropped_files acc1 @ [basename output_path],
                         cl_resellable_objects_processed :=
                           cl_resellable_objects_processed acc1 @ [class_name],
                         cl_processing_details :=
                           dict_set class_name
                             \<lparr>cd_coordinates = coords, cd_area = tuple_bbox_area coords,
                              cd_cropped_file = basename output_path,
                              cd_border_percentage = CROP_BORDER_PERCENTAGE\<rparr>
                             (cl_processing_details acc1)\<rparr>)"

definition track_processor_session :: "string \<Rightarrow> ProcessorState \<Rightarrow> ProcessorState" where
  "track_processor_session sid st =
     (if proc_current_session st \<noteq> sid
      then st\<lparr>proc_current_session := sid, session_crop_count := 0\<rparr> else st)"

text \<open>
  The handler returns the new state and the message it sends to the report
  coordinator, if any. Line 181 returns without a message when there is nothing to
  crop.
\<close>

definition process_evaluated_objects ::
  "environment \<Rightarrow> ProcessorState \<Rightarrow> EvaluationResult \<Rightarrow> ProcessorState \<times> ProcessingResult option" where
  "process_evaluated_objects env st msg =
     (if \<not> file_exists env (er_image_path msg) then (st, None)
      else
        let st1 = track_processor_session (er_session_id msg) st
        in if er_filtered_detections msg = [] then (st1, None)
           else
             let done = foldl (crop_step env (er_image_path msg) (er_timestamp msg))
                          \<lparr>cl_cropped_files = [], cl_crop_index = 0,
                           cl_resellable_objects_processed = [],
                           cl_processing_details = [],
                           cl_session_crop_count = session_crop_count st1\<rparr>
                          (er_filtered_detections msg)
             in (st1\<lparr>session_crop_count := cl_session_crop_count done,
                     proc_images_processed := proc_images_processed st1 + 1,
                     total_crops_created :=
                       total_crops_created st1 + int (length (cl_cropped_files done))\<rparr>,
                 Some \<lparr>pr_original_image_path = er_image_path msg,
                       pr_timestamp = er_timestamp msg,
                       pr_session_id = er_session_id msg,
                       pr_resellable_objects = cl_resellable_objects_processed done,
                       pr_cropped_files = cl_cropped_files done,
                       pr_processing_summary = cl_processing_details done,
                       pr_total_objects_processed =
                         int (length (cl_resellable_objects_processed done))\<rparr>))"

subsection \<open>Report coordinator agent: \<^verbatim>\<open>src/agents/report_coordinator_agent.py\<close>\<close>

record StartSystem =
  duration_seconds :: int
  max_captures :: int
  cooldown_seconds :: real

record SessionData =
  sd_start_time :: real
  sd_duration_seconds :: int
  sd_max_captures :: int
  sd_cooldown_seconds :: real
  sd_images_processed :: int
  sd_total_objects_found :: int
  sd_unique_objects :: "string set"
  sd_cropped_files :: "string list"
  sd_status :: string
  sd_end_time :: "real option"

record CoordinatorState =
  sessions :: "(string, SessionData) dict"
  current_session :: string
  total_sessions :: int
  global_seen_objects :: "string set"
  system_start_time :: real
  processing_results :: "ProcessingResult list"

definition start_system_coordination ::
  "real \<Rightarrow> CoordinatorState \<Rightarrow> StartSystem \<Rightarrow> CoordinatorState" where
  "start_system_coordination now st msg =
     (let session_id = ''session_'' @ str_int (py_trunc now)
      in st\<lparr>current_session := session_id,
            total_sessions := total_sessions st + 1,
            global_seen_objects := {},
            processing_results := [],
            sessions :=
              dict_set session_id
                \<lparr>sd_start_time = now,
                 sd_duration_seconds = duration_seconds msg,
                 sd_max_captures = max_captures msg,
                 sd_cooldown_seconds = cooldown_seconds msg,
                 sd_images_processed = 0,
                 sd_total_objects_found = 0,
                 sd_unique_objects = {},
                 sd_cropped_files = [],
                 sd_status = ''active'',
                 sd_end_time = None\<rparr>
                (sessions st)\<rparr>)"

text \<open>
  \<^verbatim>\<open>coordinate_processing_result\<close>. The report entry built at line 185 is not stored
  or sent, so it has no place in the state.
\<close>

definition coordinate_processing_result ::
  "CoordinatorState \<Rightarrow> ProcessingResult \<Rightarrow> CoordinatorState" where
  "coordinate_processing_result st msg =
     (if current_session st \<noteq> pr_session_id msg then st
      else
        case map_of (sessions st) (pr_session_id msg) of
          None \<Rightarrow> st
        | Some session_data \<Rightarrow>
            let names = set (map str_lower (pr_resellable_objects msg))
            in st\<lparr>processing_results := processing_results st @ [msg],
                  global_seen_objects := global_seen_objects st \<union> names,
                  sessions :=
                    dict_set (pr_session_id msg)
                      (session_data
                         \<lparr>sd_images_processed := sd_images_processed session_data + 1,
                          sd_total_objects_found :=
                            sd_total_objects_found session_data + pr_total_objects_processed msg,
                          sd_cropped_files :=
                            sd_cropped_files session_data @ pr_cropped_files msg,
                          sd_unique_objects := sd_unique_objects session_data \<union> names\<rparr>)
                      (sessions st)\<rparr>)"

text \<open>
  \<^verbatim>\<open>write_analysis_report\<close> returns the path of the report, or the empty string when
  the file cannot be written. The text of the file is not part of the model.
\<close>

definition REPORT_FILENAME :: string where
  "REPORT_FILENAME = ''analysis_report_resellables.txt''"

definition write_analysis_report :: "environment \<Rightarrow> string \<Rightarrow> string" where
  "write_analysis_report env session_id =
     (let report_path = session_id @ ''_'' @ REPORT_FILENAME
      in if report_writes env report_path then report_path else [])"

record ReportData =
  rd_session_id :: string
  rd_total_images_processed :: int
  rd_total_unique_objects :: int
  rd_total_cropped_files :: int
  rd_final_report_path :: string
  rd_session_summary :: SessionData

text \<open>
  \<^verbatim>\<open>finalize_session\<close> marks the session as completed, with the time \<open>now\<close> as its end,
  and builds the report data; it returns the new state and the report data, if any.
\<close>

definition finalize_session ::
  "real \<Rightarrow> environment \<Rightarrow> CoordinatorState \<Rightarrow> string \<Rightarrow> CoordinatorState \<times> ReportData option" where
  "finalize_session now env st session_id =
     (case map_of (sessions st) session_id of
        None \<Rightarrow> (st, None)
      | Some session_data0 \<Rightarrow>
          let session_data = session_data0\<lparr>sd_status := ''completed'', sd_end_time := Some now\<rparr>;
              final_report_path = write_analysis_report env session_id
          in (st\<lparr>sessions := dict_set session_id session_data (sessions st)\<rparr>,
              Some \<lparr>rd_session_id = session_id,
                    rd_total_images_processed = sd_images_processed session_data,
                    rd_total_unique_objects = int (card (sd_unique_objects session_data)),
                    rd_total_cropped_files = int (length (sd_cropped_files session_data)),
                    rd_final_report_path = final_report_path,
                    rd_session_summary = session_data\<rparr>))"

text \<open>
  \<^verbatim>\<open>session_timeout_check\<close> runs every 60 seconds over the items of \<open>sessions\<close>: an
  active session that has lasted longer than its configured duration and 30 seconds
  is finalized. \<open>clock\<close> gives the time read inside \<^verbatim>\<open>finalize_session\<close> for a
  session id.
\<close>

definition timeout_step ::
  "real \<Rightarrow> (string \<Rightarrow> real) \<Rightarrow> environment \<Rightarrow> CoordinatorState \<Rightarrow> string \<times> SessionData
     \<Rightarrow> CoordinatorState" where
  "timeout_step current_time clock env st item =
     (case item of (session_id, session_data) \<Rightarrow>
        if sd_status session_data = ''active''
           \<and> current_time - sd_start_time session_data
               > real_of_int (sd_duration_seconds session_data + 30)
        then fst (finalize_session (clock session_id) env st session_id)
        else st)"

definition session_timeout_check ::
  "real \<Rightarrow> (string \<Rightarrow> real) \<Rightarrow> environment \<Rightarrow> CoordinatorState \<Rightarrow> CoordinatorState" where
  "session_timeout_check current_time clock env st =
     foldl (timeout_step current_time clock env) st (sessions st)"

subsection \<open>The route of the messages\<close>

text \<open>
  Each agent sends its result to the fixed address of the next one (lines 208 of the
  detection agent, 222 of the evaluator, 252 of the image processor). Delivering a
  message runs the handler of the addressed agent on the state it has.
\<close>

record pipeline =
  detection_state :: DetectionState
  evaluator_state :: EvaluatorState
  processor_state :: ProcessorState
  coordinator_state :: CoordinatorState

definition deliver_evaluation_result :: "environment \<Rightarrow> pipeline \<Rightarrow> EvaluationResult \<Rightarrow> pipeline" where
  "deliver_evaluation_result env w msg =
     (case process_evaluated_objects env (processor_state w) msg of
        (st, None) \<Rightarrow> w\<lparr>processor_state := st\<rparr>
      | (st, Some processing_result) \<Rightarrow>
          w\<lparr>processor_state := st,
            coordinator_state :=
              coordinate_processing_result (coordinator_state w) processing_result\<rparr>)"

definition deliver_detection_result ::
  "environment \<Rightarrow> pipeline \<Rightarrow> DetectionResult \<Rightarrow> handler_exit + pipeline" where
  "deliver_detection_result env w msg =
     (case evaluate_resellability env (evaluator_state w) msg of
        Inl exit \<Rightarrow> Inl exit
      | Inr (st, None) \<Rightarrow> Inr (w\<lparr>evaluator_state := st\<rparr>)
      | Inr (st, Some evaluation_result) \<Rightarrow>
          Inr (deliver_evaluation_result env (w\<lparr>evaluator_state := st\<rparr>) evaluation_result))"

definition deliver_captured_image ::
  "environment \<Rightarrow> pipeline \<Rightarrow> CapturedImage \<Rightarrow> handler_exit + pipeline" where
  "deliver_captured_image env w msg =
     (case process_captured_image env (detection_state w) msg of
        (st, None) \<Rightarrow> Inr (w\<lparr>detection_state := st\<rparr>)
      | (st, Some detection_result) \<Rightarrow>
          deliver_detection_result env (w\<lparr>detection_state := st\<rparr>) detection_result)"

text \<open>
  What the specification asks when the detector is not available: the session is
  stored as ended by a failure.
\<close>

definition recorded_as_failed :: "pipeline \<Rightarrow> string \<Rightarrow> bool" where
  "recorded_as_failed w sid =
     (case map_of (sessions (coordinator_state w)) sid of
        None \<Rightarrow> False
      | Some session_data \<Rightarrow> sd_status session_data \<noteq> ''active'')"

section \<open>Image recognition agent: \<^verbatim>\<open>src/agents/image_recognition_agent.py\<close>\<close>

definition PRICE_SCRAPER_ADDRESS :: string where
  "PRICE_SCRAPER_ADDRESS = ''agent1qw8k9gxs3rx8f8hw6z7v2d3j5j9e9s8h3n4g7p2k8x3m2z5c7v9r4q1w2e3''"

record ImageRecognitionState =
  api_healthy :: bool
  requests_processed :: int
  last_health_check :: real

record product_data =
  pd_product_name :: "string option"
  pd_source_url :: "string option"
  pd_host :: "string option"
  pd_pricing :: "(string, py_value) dict option"
  pd_rating :: "(string, py_value) dict option"

text \<open>
  The answer of the recognition API to the request of line 103: status 200 with
  \<^verbatim>\<open>ok\<close> and the data, status 200 without \<^verbatim>\<open>ok\<close> (with the message, or its default),
  another status, a timeout, or another exception with its text.
\<close>

datatype api_outcome =
    ApiOk product_data
  | ApiRejected string
  | ApiHttpError int
  | ApiTimeout
  | ApiFailed string

text \<open>
  \<^verbatim>\<open>check_api_health\<close> is called at most twice by the handler: \<open>periodic_check\<close> is its
  answer at line 76, \<open>retry_check\<close> its answer at line 81.
\<close>

record recognition_world =
  periodic_check :: bool
  retry_check :: bool
  api_answer :: api_outcome

datatype recognition_output =
    ResultTo string ImageRecognitionResult
  | PriceRequestTo string PriceResearchRequest

definition recognition_error :: "ImageRecognitionRequest \<Rightarrow> string \<Rightarrow> ImageRecognitionResult" where
  "recognition_error msg text =
     \<lparr>irr_session_id = irq_session_id msg, irr_request_id = irq_request_id msg,
      irr_success = False, irr_product_name = None, irr_source_url = None, irr_host = None,
      irr_pricing = None, irr_rating = None, irr_error_message = Some text\<rparr>"

definition call_recognition_api ::
  "recognition_world \<Rightarrow> ImageRecognitionState \<Rightarrow> string \<Rightarrow> ImageRecognitionRequest
     \<Rightarrow> ImageRecognitionState \<times> recognition_output list" where
  "call_recognition_api world st sender msg =
     (case api_answer world of
        ApiOk data \<Rightarrow>
          (st\<lparr>requests_processed := requests_processed st + 1\<rparr>,
           ResultTo sender
             \<lparr>irr_session_id = irq_session_id msg, irr_request_id = irq_request_id msg,
              irr_success = True, irr_product_name = pd_product_name data,
              irr_source_url = pd_source_url data, irr_host = pd_host data,
              irr_pricing = pd_pricing data, irr_rating = pd_rating data,
              irr_error_message = None\<rparr>
           # (case pd_product_name data of
                None \<Rightarrow> []
              | Some product_name \<Rightarrow>
                  if product_name = [] then []
                  else [PriceRequestTo PRICE_SCRAPER_ADDRESS
                          \<lparr>prq_product_name = product_name,
                           prq_platforms = [''facebook'', ''ebay''],
                           prq_condition_filter = ''all'',
                           prq_session_id = irq_session_id msg,
                           prq_request_id = irq_request_id msg\<rparr>]))
      | ApiRejected error_msg \<Rightarrow>
          (st, [ResultTo sender (recognition_error msg (''Recognition failed: '' @ error_msg))])
      | ApiHttpError status_code \<Rightarrow>
          (st, [ResultTo sender
                  (recognition_error msg (''API HTTP error: '' @ str_int status_code))])
      | ApiTimeout \<Rightarrow>
          (st, [ResultTo sender (recognition_error msg ''Recognition request timed out'')])
      | ApiFailed e \<Rightarrow>
          (st, [ResultTo sender (recognition_error msg (''Processing error: '' @ e))]))"

definition process_image_recognition ::
  "real \<Rightarrow> recognition_world \<Rightarrow> ImageRecognitionState \<Rightarrow> string \<Rightarrow> ImageRecognitionRequest
     \<Rightarrow> ImageRecognitionState \<times> recognition_output list" where
  "process_image_recognition current_time world st sender msg =
     (let st1 = (if current_time - last_health_check st > 300
                 then st\<lparr>api_healthy := periodic_check world,
                         last_health_check := current_time\<rparr>
                 else st)
      in if \<not> api_healthy st1 then
           (let st2 = st1\<lparr>api_healthy := retry_check world\<rparr>
            in if \<not> api_healthy st2
               then (st2, [ResultTo sender
                             (recognition_error msg ''Image Recognition API is not available'')])
               else call_recognition_api world st2 sender msg)
         else call_recognition_api world st1 sender msg)"

text \<open>No request to a later stage is among the messages sent.\<close>

fun is_price_request :: "recognition_output \<Rightarrow> bool" where
  "is_price_request (PriceRequestTo address price_request) = True"
| "is_price_request (ResultTo address recognition_result) = False"

section \<open>Example inputs of the camera pipeline\<close>

text \<open>
  An environment in which the vision model answers with a list for the first image,
  with the empty list for the second, with a sentence (which \<^verbatim>\<open>eval\<close> rejects) for the
  third and with a number for the fourth.
\<close>

definition example_environment :: environment where
  \<open>example_environment =
     \<lparr>file_exists = (\<lambda>p. True),
      yolo_predict = (\<lambda>p. Boxes [(''laptop'', 0, 0, 100, 100), (''laptop'', 0, 0, 50, 50),
                                  (''bottle'', 10, 10, 30, 30)]),
      set_order = (\<lambda>names. names),
      gemini_reply = (\<lambda>p. if p = ''captures/a.jpg'' then GeminiReply ''["Laptop"]''
                           else if p = ''captures/b.jpg'' then GeminiReply ''[]''
                           else if p = ''captures/c.jpg'' then GeminiReply ''Nothing to resell.''
                           else GeminiReply ''42''),
      py_eval = (\<lambda>s. if s = ''[]'' then EvalValue (PyList [])
                      else if s = ''["Laptop"]'' then EvalValue (PyList [PyStr ''Laptop''])
                      else if s = ''42'' then EvalValue (PyInt 42)
                      else EvalRaised),
      coerce_str = (\<lambda>v. case v of PyBytes b \<Rightarrow> Some b | _ \<Rightarrow> None),
      crop_saves = (\<lambda>p coords. True),
      report_writes = (\<lambda>p. True)\<rparr>\<close>

definition example_detection_result :: "string \<Rightarrow> DetectionResult" where
  "example_detection_result path =
     \<lparr>dr_image_path = path, dr_timestamp = 1700000000, dr_session_id = ''session_1'',
      dr_detected_objects =
        [(''(0, 0, 100, 100)'', ''laptop''), (''(0, 0, 50, 50)'', ''laptop''),
         (''(10, 10, 30, 30)'', ''bottle'')],
      dr_unique_classes = [''laptop'', ''bottle''],
      dr_detection_count = 2,
      dr_largest_instances =
        [(''(0, 0, 100, 100)'', ''laptop''), (''(10, 10, 30, 30)'', ''bottle'')]\<rparr>"

definition example_captured_image :: CapturedImage where
  "example_captured_image =
     \<lparr>ci_filename = ''a.jpg'', ci_timestamp = 1700000000, ci_file_path = ''captures/a.jpg'',
      ci_capture_index = 0, ci_session_id = ''session_1''\<rparr>"

definition example_session_data :: SessionData where
  "example_session_data =
     \<lparr>sd_start_time = 1, sd_duration_seconds = 10, sd_max_captures = 6,
      sd_cooldown_seconds = 1, sd_images_processed = 0, sd_total_objects_found = 0,
      sd_unique_objects = {}, sd_cropped_files = [], sd_status = ''active'',
      sd_end_time = None\<rparr>"

definition example_pipeline :: pipeline where
  "example_pipeline =
     \<lparr>detection_state =
        \<lparr>yolo_model = Some (YOLO ''yolov9c.pt''), det_images_processed = 0,
         det_current_session = ''session_1'', det_global_seen_objects = {},
         processed_files = {}\<rparr>,
      evaluator_state =
        \<lparr>gemini_model = Some (GenerativeModel ''gemini-2.5-flash''), images_evaluated = 0,
         ev_current_session = ''session_1'', api_calls_made = 0, api_available = True\<rparr>,
      processor_state =
        \<lparr>proc_images_processed = 0, total_crops_created = 0,
         proc_current_session = ''session_1'', session_crop_count = 0\<rparr>,
      coordinator_state =
        \<lparr>sessions = [(''session_1'', example_session_data)],
         current_session = ''session_1'', total_sessions = 1, global_seen_objects = {},
         system_start_time = 0, processing_results = []\<rparr>\<rparr>"

definition example_recognition_request :: ImageRecognitionRequest where
  "example_recognition_request =
     \<lparr>irq_image_base64 = ''aGVsbG8='', irq_session_id = ''s3'',
      irq_request_id = ''pipeline_1_ab12cd34''\<rparr>"

definition pipeline_without_detector :: pipeline where
  "pipeline_without_detector =
     example_pipeline\<lparr>detection_state := (detection_state example_pipeline)\<lparr>yolo_model := None\<rparr>\<rparr>"

definition unhealthy_recognition :: ImageRecognitionState where
  "unhealthy_recognition = \<lparr>api_healthy = False, requests_processed = 0, last_health_check = 0\<rparr>"

definition api_down :: recognition_world where
  "api_down = \<lparr>periodic_check = False, retry_check = False, api_answer = ApiTimeout\<rparr>"

text \<open>The coordinator after one pipeline request, whose recognition request was sent.\<close>

definition started_state :: PipelineState where
  "started_state =
     fst (handle_complete_pipeline_request 5 True ''pipeline_1_ab12cd34'' [] new_PipelineState
            (example_request ''s3''))"

definition example_processing_result :: ProcessingResult where
  "example_processing_result =
     \<lparr>pr_original_image_path = ''captures/a.jpg'', pr_timestamp = 1700000000,
      pr_session_id = ''session_1'', pr_resellable_objects = [''laptop''],
      pr_cropped_files = [''1700000000_1_laptop.jpg''], pr_processing_summary = [],
      pr_total_objects_processed = 1\<rparr>"


text \<open>An environment in which the vision model answers with a call of \<^verbatim>\<open>exit\<close>.\<close>

definition exit_environment :: environment where
  "exit_environment =
     example_environment
       \<lparr>gemini_reply := (\<lambda>p. GeminiReply ''exit()''),
        py_eval := (\<lambda>s. if s = ''exit()'' then EvalExit else EvalRaised)\<rparr>"

section \<open>The largest-instance filter\<close>

lemma map_of_dict_set: "map_of (dict_set k v d) = (map_of d)(k \<mapsto> v)"
  by (induction d) (auto simp: fun_eq_iff)

lemma keys_dict_set: "fst ` set (dict_set k v d) = insert k (fst ` set d)"
proof (induction d)
  case Nil
  then show ?case by simp
next
  case (Cons e d)
  then show ?case by (cases e) (simp add: insert_commute)
qed

lemma distinct_dict_set: "distinct (map fst d) \<Longrightarrow> distinct (map fst (dict_set k v d))"
proof (induction d)
  case Nil
  then show ?case by simp
next
  case (Cons a d)
  then show ?case using keys_dict_set [of k v d] by (cases a) auto
qed

lemma dict_set_fresh: "k \<notin> fst ` set d \<Longrightarrow> dict_set k v d = d @ [(k, v)]"
  by (induction d) auto

lemma first_largest_mem: "first_largest xs k c \<Longrightarrow> (k, c) \<in> set xs"
  by (auto simp: first_largest_def)

lemma first_largest_bound:
  "first_largest xs k c \<Longrightarrow> (k', c) \<in> set xs \<Longrightarrow> calculate_bbox_area k' \<le> calculate_bbox_area k"
  by (fastforce simp: first_largest_def)

lemma first_largest_snoc_keep:
  assumes "first_largest xs k c" and "c' = c \<longrightarrow> calculate_bbox_area k' \<le> calculate_bbox_area k"
  shows "first_largest (xs @ [(k', c')]) k c"
proof -
  from assms(1) obtain ys zs where d: "xs = ys @ (k, c) # zs"
    and b: "\<forall>k'. (k', c) \<in> set ys \<longrightarrow> calculate_bbox_area k' < calculate_bbox_area k"
    and a: "\<forall>k'. (k', c) \<in> set zs \<longrightarrow> calculate_bbox_area k' \<le> calculate_bbox_area k"
    by (auto simp: first_largest_def)
  have "xs @ [(k', c')] = ys @ (k, c) # (zs @ [(k', c')])" using d by simp
  moreover have "\<forall>k''. (k'', c) \<in> set (zs @ [(k', c')]) \<longrightarrow> calculate_bbox_area k'' \<le> calculate_bbox_area k"
    using a assms(2) by auto
  ultimately show ?thesis unfolding first_largest_def using b by blast
qed

lemma first_largest_snoc_new:
  assumes "\<forall>k'. (k', c) \<in> set xs \<longrightarrow> calculate_bbox_area k' < calculate_bbox_area k"
  shows "first_largest (xs @ [(k, c)]) k c"
  unfolding first_largest_def using assms by (intro exI [of _ xs] exI [of _ "[]"]) simp

lemma first_largest_unique:
  assumes "first_largest xs k c" and "first_largest xs k' c"
  shows "k = k'"
proof -
  from assms(1) obtain ys zs where d: "xs = ys @ (k, c) # zs"
    and b: "\<forall>k'. (k', c) \<in> set ys \<longrightarrow> calculate_bbox_area k' < calculate_bbox_area k"
    and a: "\<forall>k'. (k', c) \<in> set zs \<longrightarrow> calculate_bbox_area k' \<le> calculate_bbox_area k"
    by (auto simp: first_largest_def)
  from assms(2) obtain ys' zs' where d': "xs = ys' @ (k', c) # zs'"
    and b': "\<forall>k''. (k'', c) \<in> set ys' \<longrightarrow> calculate_bbox_area k'' < calculate_bbox_area k'"
    and a': "\<forall>k''. (k'', c) \<in> set zs' \<longrightarrow> calculate_bbox_area k'' \<le> calculate_bbox_area k'"
    by (auto simp: first_largest_def)
  from d d' have "ys @ (k, c) # zs = ys' @ (k', c) # zs'" by simp
  then consider (same) "ys = ys'" "k = k'"
    | (left) us where "ys' = ys @ (k, c) # us" "zs = us @ (k', c) # zs'"
    | (right) us where "ys = ys' @ (k', c) # us" "zs' = us @ (k, c) # zs"
    by (auto simp: append_eq_append_conv2 Cons_eq_append_conv append_eq_Cons_conv)
  then show ?thesis
  proof cases
    case same
    then show ?thesis by simp
  next
    case left
    then have "calculate_bbox_area k < calculate_bbox_area k'" using b' by simp
    moreover have "calculate_bbox_area k' \<le> calculate_bbox_area k" using a left by simp
    ultimately show ?thesis by simp
  next
    case right
    then have "calculate_bbox_area k' < calculate_bbox_area k" using b by simp
    moreover have "calculate_bbox_area k \<le> calculate_bbox_area k'" using a' right by simp
    ultimately show ?thesis by simp
  qed
qed

lemma largest_step_keys:
  "fst ` set (largest_step cl (k, c)) = insert c (fst ` set cl)"
proof (cases "map_of cl c")
  case None
  then show ?thesis by (simp add: largest_step_def keys_dict_set)
next
  case (Some cur)
  then have "c \<in> fst ` set cl" by (metis map_of_eq_None_iff option.distinct(1))
  then have ins: "insert c (fst ` set cl) = fst ` set cl" by blast
  obtain ck ca where "cur = (ck, ca)" by (cases cur)
  with Some show ?thesis
    by (cases "ca < calculate_bbox_area k") (simp_all add: largest_step_def keys_dict_set ins)
qed

lemma largest_step_distinct:
  "distinct (map fst cl) \<Longrightarrow> distinct (map fst (largest_step cl kc))"
  by (auto simp: largest_step_def Let_def distinct_dict_set split: option.splits prod.splits)

lemma class_largest_inv:
  "distinct (map fst (foldl largest_step [] xs))
   \<and> fst ` set (foldl largest_step [] xs) = snd ` set xs
   \<and> (\<forall>c k a. map_of (foldl largest_step [] xs) c = Some (k, a)
         \<longrightarrow> a = calculate_bbox_area k \<and> first_largest xs k c)"
proof (induction xs rule: rev_induct)
  case Nil
  then show ?case by simp
next
  case (snoc x xs)
  obtain k' c' where x: "x = (k', c')" by (cases x)
  let ?cl = "foldl largest_step [] xs"
  from snoc have dist: "distinct (map fst ?cl)" and keys: "fst ` set ?cl = snd ` set xs"
    and inv: "\<And>c k a. map_of ?cl c = Some (k, a) \<Longrightarrow> a = calculate_bbox_area k \<and> first_largest xs k c"
    by blast+
  have step: "foldl largest_step [] (xs @ [x]) = largest_step ?cl (k', c')" by (simp add: x)
  have 1: "distinct (map fst (largest_step ?cl (k', c')))" using dist by (rule largest_step_distinct)
  have 2: "fst ` set (largest_step ?cl (k', c')) = snd ` set (xs @ [x])"
    by (simp add: largest_step_keys keys x)
  have 3: "a = calculate_bbox_area k \<and> first_largest (xs @ [x]) k c"
    if m: "map_of (largest_step ?cl (k', c')) c = Some (k, a)" for c k a
  proof (cases "map_of ?cl c'")
    case None
    then have fresh: "\<forall>k''. (k'', c') \<notin> set xs"
      using keys by (force simp: map_of_eq_None_iff)
    from None m have m': "((map_of ?cl)(c' \<mapsto> (k', calculate_bbox_area k'))) c = Some (k, a)"
      by (simp add: largest_step_def map_of_dict_set)
    show ?thesis
    proof (cases "c = c'")
      case True
      with m' have "k = k'" "a = calculate_bbox_area k'" by auto
      moreover have "first_largest (xs @ [(k', c')]) k' c'"
        by (rule first_largest_snoc_new) (use fresh in blast)
      ultimately show ?thesis using True x by simp
    next
      case False
      with m' have "map_of ?cl c = Some (k, a)" by simp
      from inv [OF this] False show ?thesis
        by (auto simp: x intro: first_largest_snoc_keep)
    qed
  next
    case (Some cur)
    obtain ck ca where cur: "cur = (ck, ca)" by (cases cur)
    from inv [of c' ck ca] Some cur have ca: "ca = calculate_bbox_area ck"
      and fl: "first_largest xs ck c'" by auto
    show ?thesis
    proof (cases "calculate_bbox_area k' > ca")
      case True
      with Some cur m have m': "((map_of ?cl)(c' \<mapsto> (k', calculate_bbox_area k'))) c = Some (k, a)"
        by (simp add: largest_step_def map_of_dict_set)
      show ?thesis
      proof (cases "c = c'")
        case c: True
        with m' have "k = k'" "a = calculate_bbox_area k'" by auto
        moreover have "first_largest (xs @ [(k', c')]) k' c'"
        proof (rule first_largest_snoc_new, intro allI impI)
          fix k'' assume "(k'', c') \<in> set xs"
          from first_largest_bound [OF fl this] True ca
          show "calculate_bbox_area k'' < calculate_bbox_area k'" by simp
        qed
        ultimately show ?thesis using c x by simp
      next
        case False
        with m' have "map_of ?cl c = Some (k, a)" by simp
        from inv [OF this] False show ?thesis
          by (auto simp: x intro: first_largest_snoc_keep)
      qed
    next
      case False
      with Some cur m have m': "map_of ?cl c = Some (k, a)"
        by (simp add: largest_step_def)
      from inv [OF m'] have a: "a = calculate_bbox_area k" and fl': "first_largest xs k c" by auto
      have "c' = c \<longrightarrow> calculate_bbox_area k' \<le> calculate_bbox_area k"
      proof
        assume "c' = c"
        with m' Some cur have "k = ck" by simp
        with False ca show "calculate_bbox_area k' \<le> calculate_bbox_area k" by simp
      qed
      from first_largest_snoc_keep [OF fl' this] a show ?thesis by (simp add: x)
    qed
  qed
  show ?case unfolding step using 1 2 3 by blast
qed

lemma foldl_filtered_step:
  "distinct (map fst acc @ map (\<lambda>e. fst (snd e)) cl)
   \<Longrightarrow> foldl filtered_step acc cl = acc @ map (\<lambda>e. (fst (snd e), fst e)) cl"
proof (induction cl arbitrary: acc)
  case Nil
  then show ?case by simp
next
  case (Cons e cl)
  obtain c k a where e: "e = (c, k, a)" by (cases e)
  from Cons.prems have fresh: "k \<notin> fst ` set acc" by (auto simp: e)
  have s: "filtered_step acc e = acc @ [(k, c)]"
    by (simp add: filtered_step_def e dict_set_fresh [OF fresh])
  have "distinct (map fst (acc @ [(k, c)]) @ map (\<lambda>e. fst (snd e)) cl)"
    using Cons.prems by (auto simp: e)
  from Cons.IH [OF this] show ?case by (simp add: s [unfolded e] e)
qed


lemma select_largest_instances_eq:
  assumes "distinct (map fst xs)"
  shows "select_largest_instances xs
           = map (\<lambda>e. (fst (snd e), fst e)) (foldl largest_step [] xs)"
proof -
  let ?cl = "foldl largest_step [] xs"
  from class_largest_inv [of xs] have dist: "distinct (map fst ?cl)"
    and inv: "\<And>c k a. map_of ?cl c = Some (k, a) \<Longrightarrow> first_largest xs k c"
    by blast+
  have "inj_on (\<lambda>e. fst (snd e)) (set ?cl)"
  proof (rule inj_onI)
    fix e e' assume e: "e \<in> set ?cl" and e': "e' \<in> set ?cl"
      and eq: "fst (snd e) = fst (snd e')"
    obtain c k a where 1: "e = (c, k, a)" by (cases e)
    obtain c' k' a' where 2: "e' = (c', k', a')" by (cases e')
    from e 1 dist have "map_of ?cl c = Some (k, a)" by simp
    then have m: "(k, c) \<in> set xs" by (intro first_largest_mem inv)
    from e' 2 dist have s': "map_of ?cl c' = Some (k', a')" by simp
    then have m': "(k', c') \<in> set xs" by (intro first_largest_mem inv)
    from eq 1 2 have "k = k'" by simp
    with m m' assms have "c = c'" by (meson eq_key_imp_eq_value)
    with eq_key_imp_eq_value [OF dist, of c "(k, a)" "(k', a')"] e e' 1 2
    show "e = e'" by simp
  qed
  moreover have "distinct ?cl" using dist by (simp add: distinct_map)
  ultimately have "distinct (map (\<lambda>e. fst (snd e)) ?cl)" by (simp add: distinct_map)
  then have "distinct (map fst [] @ map (\<lambda>e. fst (snd e)) ?cl)" by simp
  from foldl_filtered_step [OF this] show ?thesis by (simp add: select_largest_instances_def)
qed

text \<open>
  Claim C1. For a detection map (a dict, so its keys are pairwise distinct, read in
  iteration order), \<^const>\<open>select_largest_instances\<close> returns a dict with one entry per
  class label, and an entry is retained exactly when it is the first entry of maximal
  area of its class: every earlier entry of the class has a strictly smaller area and
  every later one an area that is not larger. The area of a key that parses to the four
  integers xmin, ymin, xmax, ymax is (xmax - xmin) * (ymax - ymin); the area of a key
  that does not parse to four integers is 0.
\<close>

theorem select_largest_instances_first_max:
  assumes "distinct (map fst all_detections)"
  shows "distinct (map fst (select_largest_instances all_detections))
    \<and> distinct (map snd (select_largest_instances all_detections))
    \<and> ((coords_key, class_name) \<in> set (select_largest_instances all_detections) \<longleftrightarrow>
         (\<exists>before after. all_detections = before @ (coords_key, class_name) # after
            \<and> (\<forall>k. (k, class_name) \<in> set before
                  \<longrightarrow> calculate_bbox_area k < calculate_bbox_area coords_key)
            \<and> (\<forall>k. (k, class_name) \<in> set after
                  \<longrightarrow> calculate_bbox_area k \<le> calculate_bbox_area coords_key)))
    \<and> (\<forall>x_min y_min x_max y_max.
          parse_coords coords_key = Some [x_min, y_min, x_max, y_max]
          \<longrightarrow> calculate_bbox_area coords_key = (x_max - x_min) * (y_max - y_min))
    \<and> ((\<forall>a b c d. parse_coords coords_key \<noteq> Some [a, b, c, d])
          \<longrightarrow> calculate_bbox_area coords_key = 0)"
proof -
  let ?cl = "foldl largest_step [] all_detections"
  let ?out = "select_largest_instances all_detections"
  note eq = select_largest_instances_eq [OF assms]
  from class_largest_inv [of all_detections] have dist: "distinct (map fst ?cl)"
    and keys: "fst ` set ?cl = snd ` set all_detections"
    and inv: "\<And>c k a. map_of ?cl c = Some (k, a)
                \<Longrightarrow> a = calculate_bbox_area k \<and> first_largest all_detections k c"
    by blast+
  have snd_out: "map snd ?out = map fst ?cl" by (simp add: eq)
  have 2: "distinct (map snd ?out)" using dist by (simp add: snd_out)
  have mem: "(k, c) \<in> set ?out \<longleftrightarrow> first_largest all_detections k c" for k c
  proof
    assume "(k, c) \<in> set ?out"
    then obtain a where "(c, k, a) \<in> set ?cl" by (auto simp: eq)
    with dist have "map_of ?cl c = Some (k, a)" by simp
    from inv [OF this] show "first_largest all_detections k c" by simp
  next
    assume fl: "first_largest all_detections k c"
    then have "c \<in> fst ` set ?cl" using keys first_largest_mem by force
    then obtain k' a where m: "map_of ?cl c = Some (k', a)"
      by (metis map_of_eq_None_iff not_Some_eq surj_pair)
    from inv [OF m] fl have "k' = k" by (auto dest: first_largest_unique)
    with m have "(c, k, a) \<in> set ?cl" by (auto dest: map_of_SomeD)
    then show "(k, c) \<in> set ?out" by (force simp: eq)
  qed
  have 1: "distinct (map fst ?out)"
  proof -
    have "map_of all_detections k = Some c" if "(k, c) \<in> set ?out" for k c
      using that mem first_largest_mem assms by simp
    then have "inj_on fst (set ?out)"
      by (intro inj_onI) (metis option.inject prod.collapse)
    moreover have "distinct ?out" using 2 by (simp add: distinct_map)
    ultimately show ?thesis by (simp add: distinct_map)
  qed
  have 4: "(\<forall>a b c d. parse_coords coords_key \<noteq> Some [a, b, c, d])
             \<longrightarrow> calculate_bbox_area coords_key = 0"
    by (auto simp: calculate_bbox_area_def split: option.splits list.splits)
  have 3: "\<forall>x_min y_min x_max y_max.
          parse_coords coords_key = Some [x_min, y_min, x_max, y_max]
          \<longrightarrow> calculate_bbox_area coords_key = (x_max - x_min) * (y_max - y_min)"
    by (simp add: calculate_bbox_area_def)
  show ?thesis using 1 2 3 4 mem [of coords_key class_name]
    unfolding first_largest_def by blast
qed

text \<open>
  The theorem at the example: of the two laptops of area 10000 the first is kept, the
  cup whose key has three parts (area 0) loses against the cup of area 4, and the book
  whose key does not parse (area 0) loses against the book of area 1.
\<close>

theorem select_largest_instances_first_max_witness:
  "distinct (map fst example_detections)
   \<and> select_largest_instances example_detections
       = [(''(0, 0, 100, 100)'', ''laptop''), (''(10, 10, 30, 30)'', ''bottle''),
          (''(7, 7, 9, 9)'', ''cup''), (''(0, 0, 1, 1)'', ''book'')]
   \<and> (\<exists>before after.
         example_detections = before @ (''(0, 0, 100, 100)'', ''laptop'') # after
         \<and> (\<forall>k. (k, ''laptop'') \<in> set before
               \<longrightarrow> calculate_bbox_area k < calculate_bbox_area ''(0, 0, 100, 100)'')
         \<and> (\<forall>k. (k, ''laptop'') \<in> set after
               \<longrightarrow> calculate_bbox_area k \<le> calculate_bbox_area ''(0, 0, 100, 100)''))
   \<and> parse_coords ''(50, 50, 150, 150)'' = Some [50, 50, 150, 150]
   \<and> calculate_bbox_area ''(50, 50, 150, 150)'' = (150 - 50) * (150 - 50)
   \<and> calculate_bbox_area ''(1, 2, 3)'' = 0
   \<and> calculate_bbox_area (''(0, 0, '' @ [CHR 0x1C] @ ''5, 4)'') = 0"
proof -
  have d: "distinct (map fst example_detections)" by code_simp
  have v: "select_largest_instances example_detections
       = [(''(0, 0, 100, 100)'', ''laptop''), (''(10, 10, 30, 30)'', ''bottle''),
          (''(7, 7, 9, 9)'', ''cup''), (''(0, 0, 1, 1)'', ''book'')]" by code_simp
  have "parse_coords ''(1, 2, 3)'' = Some [1, 2, 3]" by code_simp
  then have p: "\<forall>a b c d. parse_coords ''(1, 2, 3)'' \<noteq> Some [a, b, c, d]" by simp
  have "parse_coords (''(0, 0, '' @ [CHR 0x1C] @ ''5, 4)'') = None" by code_simp
  then have q: "\<forall>a b c d. parse_coords (''(0, 0, '' @ [CHR 0x1C] @ ''5, 4)'')
                  \<noteq> Some [a, b, c, d]" by simp
  have a: "parse_coords ''(50, 50, 150, 150)'' = Some [50, 50, 150, 150]" by code_simp
  from select_largest_instances_first_max
         [OF d, of "''(0, 0, 100, 100)''" "''laptop''"]
       select_largest_instances_first_max [OF d, of "''(1, 2, 3)''"]
       select_largest_instances_first_max [OF d, of "''(50, 50, 150, 150)''"]
       select_largest_instances_first_max [OF d, of "''(0, 0, '' @ [CHR 0x1C] @ ''5, 4)''"]
       d v p q a
  show ?thesis by simp
qed

section \<open>The pipeline coordinator\<close>

subsection \<open>Unknown sessions\<close>

text \<open>
  Claim C6. A stage result whose session id is not a key of \<open>active_sessions\<close> is
  dropped by each of the three handlers: the state that comes back is the state that
  went in (no session created, none changed, counters as before) and nothing is
  finalized. The handlers are total functions of the model: none of their branches
  raises.
\<close>

theorem unknown_session_is_dropped:
  "(map_of (active_sessions st) (irr_session_id ir) = None
      \<longrightarrow> handle_image_recognition_result now st ir = (st, None))
   \<and> (map_of (active_sessions st) (prr_session_id pr) = None
      \<longrightarrow> handle_price_research_result now st pr = (st, None))
   \<and> (map_of (active_sessions st) (lcr_session_id lc) = None
      \<longrightarrow> handle_listing_creation_result now st lc = (st, None))"
  by (simp add: handle_image_recognition_result_def handle_price_research_result_def
      handle_listing_creation_result_def)

theorem unknown_session_is_dropped_witness:
  "map_of (active_sessions example_state) (irr_session_id (example_recognition ''s9'')) = None
   \<and> handle_image_recognition_result 10 example_state (example_recognition ''s9'')
       = (example_state, None)
   \<and> map_of (active_sessions example_state) (prr_session_id (example_price_failure ''s9'')) = None
   \<and> handle_price_research_result 10 example_state (example_price_failure ''s9'')
       = (example_state, None)
   \<and> map_of (active_sessions example_state) (lcr_session_id (example_listing ''s9'')) = None
   \<and> handle_listing_creation_result 10 example_state (example_listing ''s9'')
       = (example_state, None)"
proof -
  have 1: "map_of (active_sessions example_state) (irr_session_id (example_recognition ''s9'')) = None"
    by (simp add: example_state_def example_recognition_def)
  have 2: "map_of (active_sessions example_state) (prr_session_id (example_price_failure ''s9'')) = None"
    by (simp add: example_state_def example_price_failure_def)
  have 3: "map_of (active_sessions example_state) (lcr_session_id (example_listing ''s9'')) = None"
    by (simp add: example_state_def example_listing_def)
  from 1 2 3 unknown_session_is_dropped
    [of example_state "example_recognition ''s9''" 10 "example_price_failure ''s9''"
        "example_listing ''s9''"]
  show ?thesis by simp
qed

subsection \<open>Finalizing\<close>

lemma finalize_completed:
  "completed session \<Longrightarrow> finalize_pipeline_session now st session success err = (st, session, None)"
  by (simp add: finalize_pipeline_session_def)

lemma finalize_stored_completed:
  "completed session \<Longrightarrow>
     finalize_stored now st sid session success err = (put_session sid session st, None)"
  by (simp add: finalize_stored_def finalize_completed)

lemma map_of_put_session:
  "map_of (active_sessions (put_session sid session st))
     = (map_of (active_sessions st))(sid \<mapsto> session)"
  by (simp add: put_session_def map_of_dict_set)

lemma keys_put_session:
  "map_of (active_sessions st) sid = Some old
     \<Longrightarrow> map fst (active_sessions (put_session sid session st)) = map fst (active_sessions st)"
proof -
  have "map_of d sid = Some old \<Longrightarrow> map fst (dict_set sid session d) = map fst d" for d
    by (induction d) (auto split: if_splits)
  then show "map_of (active_sessions st) sid = Some old
     \<Longrightarrow> map fst (active_sessions (put_session sid session st)) = map fst (active_sessions st)"
    by (simp add: put_session_def)
qed

lemma counters_put_session:
  "completed_sessions (put_session sid session st) = completed_sessions st"
  "failed_sessions (put_session sid session st) = failed_sessions st"
  by (simp_all add: put_session_def)

text \<open>
  Claim C9. Finalizing a session that is not yet completed composes the result from
  the fields of the session as they are at that moment: the three stage results and
  the step list are copied unchanged, next to the success flag and the error reason
  given, and the session keeps them. In particular, when price research fails after a
  recognition result was stored, the result composed by the handler carries that
  recognition result, the failing price result and the reason.
\<close>

theorem finalize_composes_stored_outputs:
  "(\<not> completed session \<longrightarrow>
      finalize_pipeline_session now st session success err
        = ((if success then st\<lparr>completed_sessions := completed_sessions st + 1\<rparr>
            else st\<lparr>failed_sessions := failed_sessions st + 1\<rparr>),
           session\<lparr>completed := True\<rparr>,
           Some \<lparr>res_session_id = cpr_session_id (request session),
                 res_success = success,
                 res_steps_completed = steps_completed session,
                 res_image_recognition = image_recognition_result session,
                 res_price_research = price_research_result session,
                 res_listing_creation = listing_creation_result session,
                 res_error_message = err,
                 res_total_execution_time_ms =
                   Some (py_trunc ((now - start_time session) * 1000))\<rparr>))
   \<and> (map_of (active_sessions st) (prr_session_id pr) = Some session
        \<and> \<not> completed session \<and> \<not> prr_success pr \<longrightarrow>
      snd (handle_price_research_result now st pr)
        = Some \<lparr>res_session_id = cpr_session_id (request session),
                 res_success = False,
                 res_steps_completed = steps_completed session @ [''price_research_completed''],
                 res_image_recognition = image_recognition_result session,
                 res_price_research = Some pr,
                 res_listing_creation = listing_creation_result session,
                 res_error_message =
                   Some (''Price research failed: '' @ str_optional (prr_error_message pr)),
                 res_total_execution_time_ms =
                   Some (py_trunc ((now - start_time session) * 1000))\<rparr>)"
  by (simp add: finalize_pipeline_session_def handle_price_research_result_def
      finalize_stored_def Let_def)

theorem finalize_composes_stored_outputs_witness:
  "\<not> completed waiting_session
   \<and> map_of (active_sessions example_state) (prr_session_id (example_price_failure ''s2''))
       = Some waiting_session
   \<and> \<not> prr_success (example_price_failure ''s2'')
   \<and> snd (snd (finalize_pipeline_session 60 example_state waiting_session False (Some ''x'')))
       = Some \<lparr>res_session_id = ''s2'', res_success = False,
                res_steps_completed = [''image_recognition_initiated'', ''image_recognition_completed''],
                res_image_recognition = Some (example_recognition ''s2''),
                res_price_research = None, res_listing_creation = None,
                res_error_message = Some ''x'',
                res_total_execution_time_ms = Some 10000\<rparr>
   \<and> snd (handle_price_research_result 60 example_state (example_price_failure ''s2''))
       = Some \<lparr>res_session_id = ''s2'', res_success = False,
                res_steps_completed = [''image_recognition_initiated'',
                  ''image_recognition_completed'', ''price_research_completed''],
                res_image_recognition = Some (example_recognition ''s2''),
                res_price_research = Some (example_price_failure ''s2''),
                res_listing_creation = None,
                res_error_message = Some ''Price research failed: TIMEOUT'',
                res_total_execution_time_ms = Some 10000\<rparr>"
proof -
  have 1: "\<not> completed waiting_session"
    by (simp add: waiting_session_def new_PipelineSession_def)
  have 2: "map_of (active_sessions example_state) (prr_session_id (example_price_failure ''s2''))
       = Some waiting_session"
    by (simp add: example_state_def example_price_failure_def)
  have 3: "\<not> prr_success (example_price_failure ''s2'')"
    by (simp add: example_price_failure_def)
  have f: "waiting_session =
     \<lparr>request = example_request ''s2'', start_time = 50,
      steps_completed = [''image_recognition_initiated'', ''image_recognition_completed''],
      image_recognition_result = Some (example_recognition ''s2''),
      price_research_result = None, listing_creation_result = None,
      error_message = None, completed = False\<rparr>"
    by (simp add: waiting_session_def new_PipelineSession_def)
  have t: "py_trunc 10000 = 10000" by (simp add: py_trunc_def)
  have e: "str_optional (prr_error_message (example_price_failure ''s2'')) = ''TIMEOUT''"
    by (simp add: example_price_failure_def str_optional_def)
  have r: "cpr_session_id (example_request ''s2'') = ''s2''" by (simp add: example_request_def)
  from finalize_composes_stored_outputs
    [of waiting_session 60 example_state False "Some ''x''" "example_price_failure ''s2''"]
    1 2 3
  show ?thesis by (simp add: f t e r)
qed

subsection \<open>Messages for a completed session\<close>

text \<open>
  Claim C3, as stated, asks that a duplicate stage result for a completed session
  leaves the state as it was. The handlers have no test of the completed flag: the
  session of \<^const>\<open>example_state\<close> under \<^verbatim>\<open>s1\<close> is completed and holds the recognition
  result \<^const>\<open>example_no_product\<close>; delivering that same message again gives another
  state, whose step list has grown by one entry.
\<close>

theorem duplicate_result_changes_completed_session:
  "map_of (active_sessions example_state) (irr_session_id example_no_product) = Some done_session
   \<and> completed done_session
   \<and> image_recognition_result done_session = Some example_no_product
   \<and> fst (handle_image_recognition_result 10 example_state example_no_product) \<noteq> example_state
   \<and> map_option steps_completed
        (map_of (active_sessions
           (fst (handle_image_recognition_result 10 example_state example_no_product))) ''s1'')
       = Some [''image_recognition_initiated'', ''image_recognition_completed'',
               ''image_recognition_completed'']"
proof -
  have sid: "irr_session_id example_no_product = ''s1''"
    by (simp add: example_no_product_def example_recognition_def)
  have m: "map_of (active_sessions example_state) ''s1'' = Some done_session"
    by (simp add: example_state_def)
  have c: "completed done_session" "image_recognition_result done_session = Some example_no_product"
    "steps_completed done_session = [''image_recognition_initiated'', ''image_recognition_completed'']"
    by (simp_all add: done_session_def new_PipelineSession_def)
  have ok: "irr_success example_no_product" "irr_product_name example_no_product = None"
    by (simp_all add: example_no_product_def example_recognition_def)
  have h: "handle_image_recognition_result 10 example_state example_no_product
     = (put_session ''s1'' (done_session\<lparr>image_recognition_result := Some example_no_product,
          steps_completed := steps_completed done_session @ [''image_recognition_completed'']\<rparr>)
          example_state, None)"
    by (simp add: handle_image_recognition_result_def sid m ok Let_def
        finalize_stored_completed c(1))
  have s: "map_option steps_completed
        (map_of (active_sessions
           (fst (handle_image_recognition_result 10 example_state example_no_product))) ''s1'')
       = Some [''image_recognition_initiated'', ''image_recognition_completed'',
               ''image_recognition_completed'']"
    by (simp add: h map_of_put_session c(3))
  have "map_option steps_completed (map_of (active_sessions example_state) ''s1'')
       = Some [''image_recognition_initiated'', ''image_recognition_completed'']"
    by (simp add: m c(3))
  with s have "fst (handle_image_recognition_result 10 example_state example_no_product)
       \<noteq> example_state" by auto
  with sid m c s show ?thesis by simp
qed

text \<open>
  Claim C3, amended. For a session whose completed flag is set, finalizing again is a
  no-op, and a stage result delivered afterwards finalizes nothing: no result is
  composed and both counters keep their values. The handler still writes to the stored
  session: the message replaces the stored stage result and the stage name is appended
  to the step list once more; the completed flag, the ids of the store, their order
  and every other session are as before.
\<close>

theorem completed_session_after_stage_result:
  "map_of (active_sessions st) sid = Some session \<and> completed session \<longrightarrow>
     finalize_pipeline_session now st session success err = (st, session, None)
   \<and> (irr_session_id ir = sid \<longrightarrow>
        handle_image_recognition_result now st ir
          = (put_session sid
               (session\<lparr>image_recognition_result := Some ir,
                  steps_completed := steps_completed session @ [''image_recognition_completed'']\<rparr>)
               st, None))
   \<and> (prr_session_id pr = sid \<longrightarrow>
        handle_price_research_result now st pr
          = (put_session sid
               (session\<lparr>price_research_result := Some pr,
                  steps_completed := steps_completed session @ [''price_research_completed'']\<rparr>)
               st, None))
   \<and> (lcr_session_id lc = sid \<longrightarrow>
        handle_listing_creation_result now st lc
          = (put_session sid
               (session\<lparr>listing_creation_result := Some lc,
                  steps_completed := steps_completed session @ [''listing_creation_completed'']\<rparr>)
               st, None))
   \<and> completed_sessions (put_session sid session' st) = completed_sessions st
   \<and> failed_sessions (put_session sid session' st) = failed_sessions st
   \<and> map fst (active_sessions (put_session sid session' st)) = map fst (active_sessions st)
   \<and> map_of (active_sessions (put_session sid session' st))
       = (map_of (active_sessions st))(sid \<mapsto> session')"
proof (intro impI, elim conjE)
  assume m: "map_of (active_sessions st) sid = Some session" and c: "completed session"
  have 1: "finalize_pipeline_session now st session success err = (st, session, None)"
    using c by (rule finalize_completed)
  have 2: "irr_session_id ir = sid \<longrightarrow>
        handle_image_recognition_result now st ir
          = (put_session sid
               (session\<lparr>image_recognition_result := Some ir,
                  steps_completed := steps_completed session @ [''image_recognition_completed'']\<rparr>)
               st, None)"
    using m c by (simp add: handle_image_recognition_result_def Let_def finalize_stored_completed)
  have 3: "prr_session_id pr = sid \<longrightarrow>
        handle_price_research_result now st pr
          = (put_session sid
               (session\<lparr>price_research_result := Some pr,
                  steps_completed := steps_completed session @ [''price_research_completed'']\<rparr>)
               st, None)"
    using m c by (simp add: handle_price_research_result_def Let_def finalize_stored_completed)
  have 4: "lcr_session_id lc = sid \<longrightarrow>
        handle_listing_creation_result now st lc
          = (put_session sid
               (session\<lparr>listing_creation_result := Some lc,
                  steps_completed := steps_completed session @ [''listing_creation_completed'']\<rparr>)
               st, None)"
    using m c by (simp add: handle_listing_creation_result_def Let_def finalize_stored_completed)
  show "finalize_pipeline_session now st session success err = (st, session, None)
   \<and> (irr_session_id ir = sid \<longrightarrow>
        handle_image_recognition_result now st ir
          = (put_session sid
               (session\<lparr>image_recognition_result := Some ir,
                  steps_completed := steps_completed session @ [''image_recognition_completed'']\<rparr>)
               st, None))
   \<and> (prr_session_id pr = sid \<longrightarrow>
        handle_price_research_result now st pr
          = (put_session sid
               (session\<lparr>price_research_result := Some pr,
                  steps_completed := steps_completed session @ [''price_research_completed'']\<rparr>)
               st, None))
   \<and> (lcr_session_id lc = sid \<longrightarrow>
        handle_listing_creation_result now st lc
          = (put_session sid
               (session\<lparr>listing_creation_result := Some lc,
                  steps_completed := steps_completed session @ [''listing_creation_completed'']\<rparr>)
               st, None))
   \<and> completed_sessions (put_session sid session' st) = completed_sessions st
   \<and> failed_sessions (put_session sid session' st) = failed_sessions st
   \<and> map fst (active_sessions (put_session sid session' st)) = map fst (active_sessions st)
   \<and> map_of (active_sessions (put_session sid session' st))
       = (map_of (active_sessions st))(sid \<mapsto> session')"
    using 1 2 3 4 counters_put_session [of sid session' st] keys_put_session [OF m, of session']
      map_of_put_session [of sid session' st]
    by blast
qed

theorem completed_session_after_stage_result_witness:
  "map_of (active_sessions example_state) ''s1'' = Some done_session
   \<and> completed done_session
   \<and> irr_session_id example_no_product = ''s1''
   \<and> prr_session_id (example_price_failure ''s1'') = ''s1''
   \<and> lcr_session_id (example_listing ''s1'') = ''s1''
   \<and> finalize_pipeline_session 10 example_state done_session True None
       = (example_state, done_session, None)
   \<and> snd (handle_image_recognition_result 10 example_state example_no_product) = None
   \<and> snd (handle_price_research_result 10 example_state (example_price_failure ''s1'')) = None
   \<and> snd (handle_listing_creation_result 10 example_state (example_listing ''s1'')) = None
   \<and> failed_sessions (fst (handle_price_research_result 10 example_state
        (example_price_failure ''s1''))) = 1
   \<and> map fst (active_sessions (fst (handle_listing_creation_result 10 example_state
        (example_listing ''s1'')))) = [''s1'', ''s2'']"
proof -
  have m: "map_of (active_sessions example_state) ''s1'' = Some done_session"
    by (simp add: example_state_def)
  have c: "completed done_session" by (simp add: done_session_def new_PipelineSession_def)
  have i: "irr_session_id example_no_product = ''s1''"
    "prr_session_id (example_price_failure ''s1'') = ''s1''"
    "lcr_session_id (example_listing ''s1'') = ''s1''"
    by (simp_all add: example_no_product_def example_recognition_def
        example_price_failure_def example_listing_def)
  have e: "failed_sessions example_state = 1"
    "map fst (active_sessions example_state) = [''s1'', ''s2'']"
    by (simp_all add: example_state_def)
  note t = completed_session_after_stage_result
    [of example_state "''s1''" done_session 10 True None example_no_product
        "example_price_failure ''s1''" "example_listing ''s1''"]
  from t [of "done_session\<lparr>price_research_result := Some (example_price_failure ''s1''),
                  steps_completed := steps_completed done_session @ [''price_research_completed'']\<rparr>"]
    t [of "done_session\<lparr>listing_creation_result := Some (example_listing ''s1''),
                  steps_completed := steps_completed done_session @ [''listing_creation_completed'']\<rparr>"]
    m c i e
  show ?thesis by simp
qed

subsection \<open>The sweep\<close>

lemma sweep_fold:
  "foldl (sweep_step t) (ks, f) d
     = (ks @ map fst (filter (\<lambda>item. swept t (snd item)) d),
        f + int (length (filter (stalled t) d)))"
proof (induction d arbitrary: ks f)
  case Nil
  then show ?case by simp
next
  case (Cons item d)
  obtain sid session where item: "item = (sid, session)" by (cases item)
  have step: "sweep_step t (ks, f) (sid, session)
      = (ks @ (if swept t session then [sid] else []),
         f + (if stalled t (sid, session) then 1 else 0))"
    by (simp add: sweep_step_def swept_def stalled_def Let_def)
  show ?case by (simp add: item step Cons.IH)
qed

lemma foldl_dict_pop:
  "foldl (\<lambda>d k. dict_pop k d) d ks = filter (\<lambda>kv. fst kv \<notin> set ks) d"
proof (induction ks arbitrary: d)
  case Nil
  then show ?case by simp
next
  case (Cons k ks)
  have "filter (\<lambda>kv. fst kv \<notin> set ks) (dict_pop k d) = filter (\<lambda>kv. fst kv \<notin> set (k # ks)) d"
    by (auto simp: dict_pop_def intro: filter_cong)
  then show ?case by (simp add: Cons.IH)
qed

lemma map_of_filter_keys:
  "map_of (filter (\<lambda>kv. fst kv \<notin> K) d) k = (if k \<in> K then None else map_of d k)"
  by (induction d) auto

lemma swept_keys:
  assumes "distinct (map fst d)"
  shows "k \<in> set (map fst (filter (\<lambda>item. swept t (snd item)) d))
           \<longleftrightarrow> (\<exists>session. map_of d k = Some session \<and> swept t session)"
proof
  assume "k \<in> set (map fst (filter (\<lambda>item. swept t (snd item)) d))"
  then obtain session where "(k, session) \<in> set d" "swept t session" by auto
  with assms show "\<exists>session. map_of d k = Some session \<and> swept t session" by auto
next
  assume "\<exists>session. map_of d k = Some session \<and> swept t session"
  then obtain session where "map_of d k = Some session" "swept t session" by blast
  then have "(k, session) \<in> set (filter (\<lambda>item. swept t (snd item)) d)"
    by (auto dest: map_of_SomeD)
  then show "k \<in> set (map fst (filter (\<lambda>item. swept t (snd item)) d))" by force
qed

lemma cleanup_old_sessions_eq:
  "cleanup_old_sessions t st
     = st\<lparr>active_sessions :=
            filter (\<lambda>kv. fst kv \<notin> set (map fst (filter (\<lambda>item. swept t (snd item))
                                                  (active_sessions st))))
              (active_sessions st),
          failed_sessions :=
            failed_sessions st + int (length (filter (stalled t) (active_sessions st)))\<rparr>"
  by (simp add: cleanup_old_sessions_def sweep_fold foldl_dict_pop)

text \<open>
  Claim C5, as stated, asks that the sweep turns a stalled session into a failed one
  with the reason \<^verbatim>\<open>stalled\<close>. The session of \<^const>\<open>example_state\<close> under \<^verbatim>\<open>s2\<close> is not
  completed and 950 seconds old at time 1000; after the sweep it is not a stored
  failed session, it is gone from the store.
\<close>

theorem sweep_removes_stalled_session:
  "map_of (active_sessions example_state) ''s2'' = Some waiting_session
   \<and> \<not> completed waiting_session
   \<and> 1000 - start_time waiting_session > 900
   \<and> \<not> failed_as_stalled (cleanup_old_sessions 1000 example_state) ''s2''
   \<and> map_of (active_sessions (cleanup_old_sessions 1000 example_state)) ''s2'' = None"
proof -
  have w: "\<not> completed waiting_session" "start_time waiting_session = 50"
    by (simp_all add: waiting_session_def new_PipelineSession_def)
  have d: "completed done_session" "start_time done_session = 0"
    by (simp_all add: done_session_def new_PipelineSession_def)
  have "active_sessions (cleanup_old_sessions 1000 example_state) = []"
    by (simp add: cleanup_old_sessions_eq example_state_def swept_def w d)
  then show ?thesis by (simp add: failed_as_stalled_def w example_state_def)
qed

text \<open>
  Claim C5, amended. The age of a session is the time since its start, for completed
  sessions too. The sweep removes from the store every completed session older than
  300 seconds and every session that is not completed and older than 900 seconds; each
  of the latter adds one to \<open>failed_sessions\<close>, and nothing is written to a session.
  Every other session stays in the store unchanged, and \<open>completed_sessions\<close> keeps
  its value.
\<close>

theorem sweep_removes_old_sessions:
  "distinct (map fst (active_sessions st)) \<longrightarrow>
     map_of (active_sessions (cleanup_old_sessions current_time st)) sid
       = (case map_of (active_sessions st) sid of
            None \<Rightarrow> None
          | Some session \<Rightarrow>
              if (completed session \<and> current_time - start_time session > 300)
                 \<or> (\<not> completed session \<and> current_time - start_time session > 900)
              then None else Some session)
   \<and> failed_sessions (cleanup_old_sessions current_time st)
       = failed_sessions st
         + int (length (filter (\<lambda>item. \<not> completed (snd item)
                                    \<and> current_time - start_time (snd item) > 900)
                          (active_sessions st)))
   \<and> completed_sessions (cleanup_old_sessions current_time st) = completed_sessions st"
proof
  assume dist: "distinct (map fst (active_sessions st))"
  let ?d = "active_sessions st"
  let ?K = "set (map fst (filter (\<lambda>item. swept current_time (snd item)) ?d))"
  have "map_of (active_sessions (cleanup_old_sessions current_time st)) sid
          = (if sid \<in> ?K then None else map_of ?d sid)"
    by (simp add: cleanup_old_sessions_eq map_of_filter_keys)
  also have "\<dots> = (case map_of ?d sid of None \<Rightarrow> None
                    | Some session \<Rightarrow> if swept current_time session then None else Some session)"
    using swept_keys [OF dist, of sid current_time] by (auto split: option.splits)
  finally have 1: "map_of (active_sessions (cleanup_old_sessions current_time st)) sid
       = (case map_of ?d sid of
            None \<Rightarrow> None
          | Some session \<Rightarrow>
              if (completed session \<and> current_time - start_time session > 300)
                 \<or> (\<not> completed session \<and> current_time - start_time session > 900)
              then None else Some session)"
    by (simp add: swept_def cong: option.case_cong)
  have "stalled current_time = (\<lambda>item. \<not> completed (snd item)
                                    \<and> current_time - start_time (snd item) > 900)"
    by (simp add: stalled_def fun_eq_iff)
  then have 2: "failed_sessions (cleanup_old_sessions current_time st)
       = failed_sessions st
         + int (length (filter (\<lambda>item. \<not> completed (snd item)
                                    \<and> current_time - start_time (snd item) > 900) ?d))"
    by (simp add: cleanup_old_sessions_eq)
  have 3: "completed_sessions (cleanup_old_sessions current_time st) = completed_sessions st"
    by (simp add: cleanup_old_sessions_eq)
  from 1 2 3 show "map_of (active_sessions (cleanup_old_sessions current_time st)) sid
       = (case map_of (active_sessions st) sid of
            None \<Rightarrow> None
          | Some session \<Rightarrow>
              if (completed session \<and> current_time - start_time session > 300)
                 \<or> (\<not> completed session \<and> current_time - start_time session > 900)
              then None else Some session)
   \<and> failed_sessions (cleanup_old_sessions current_time st)
       = failed_sessions st
         + int (length (filter (\<lambda>item. \<not> completed (snd item)
                                    \<and> current_time - start_time (snd item) > 900)
                          (active_sessions st)))
   \<and> completed_sessions (cleanup_old_sessions current_time st) = completed_sessions st"
    by blast
qed

text \<open>
  The theorem at time 400: the completed session (age 400) is removed, the waiting one
  (age 350) is kept as it is and is not counted as failed.
\<close>

theorem sweep_removes_old_sessions_witness:
  "distinct (map fst (active_sessions example_state))
   \<and> map_of (active_sessions (cleanup_old_sessions 400 example_state)) ''s1'' = None
   \<and> map_of (active_sessions (cleanup_old_sessions 400 example_state)) ''s2''
       = Some waiting_session
   \<and> failed_sessions (cleanup_old_sessions 400 example_state) = 1
   \<and> completed_sessions (cleanup_old_sessions 400 example_state) = 0"
proof -
  have dist: "distinct (map fst (active_sessions example_state))"
    by (simp add: example_state_def)
  have w: "\<not> completed waiting_session" "start_time waiting_session = 50"
    by (simp_all add: waiting_session_def new_PipelineSession_def)
  have d: "completed done_session" "start_time done_session = 0"
    by (simp_all add: done_session_def new_PipelineSession_def)
  have e: "active_sessions example_state = [(''s1'', done_session), (''s2'', waiting_session)]"
    "failed_sessions example_state = 1" "completed_sessions example_state = 0"
    by (simp_all add: example_state_def)
  from sweep_removes_old_sessions [of example_state 400 "''s1''"]
    sweep_removes_old_sessions [of example_state 400 "''s2''"] dist
  show ?thesis by (simp add: e w d)
qed

section \<open>The camera pipeline\<close>

subsection \<open>The resellability filter\<close>

lemma foldl_filter_step:
  "distinct (map fst acc @ map fst xs)
   \<Longrightarrow> foldl (filter_step ns) acc xs
         = acc @ filter (\<lambda>kc. PyStr (str_lower (snd kc)) \<in> set ns) xs"
proof (induction xs arbitrary: acc)
  case Nil
  then show ?case by simp
next
  case (Cons kc xs)
  obtain k c where kc: "kc = (k, c)" by (cases kc)
  show ?case
  proof (cases "PyStr (str_lower c) \<in> set ns")
    case True
    from Cons.prems have fresh: "k \<notin> fst ` set acc" by (auto simp: kc)
    have s: "filter_step ns acc (k, c) = acc @ [(k, c)]"
      using True by (simp add: filter_step_def dict_set_fresh [OF fresh])
    have "distinct (map fst (acc @ [(k, c)]) @ map fst xs)" using Cons.prems by (auto simp: kc)
    from Cons.IH [OF this] True show ?thesis by (simp add: kc s)
  next
    case False
    then have s: "filter_step ns acc (k, c) = acc" by (simp add: filter_step_def)
    have "distinct (map fst acc @ map fst xs)" using Cons.prems by (auto simp: kc)
    from Cons.IH [OF this] False show ?thesis by (simp add: kc s)
  qed
qed

lemma filter_resellable_eq:
  "distinct (map fst xs)
   \<Longrightarrow> filter_resellable ns xs = filter (\<lambda>kc. PyStr (str_lower (snd kc)) \<in> set ns) xs"
  using foldl_filter_step [of "[]" xs ns] by (simp add: filter_resellable_def)

lemma filter_resellable_Nil: "filter_resellable [] xs = []"
proof -
  have "foldl (filter_step []) acc xs = acc" for acc
    by (induction xs arbitrary: acc) (auto simp: filter_step_def)
  then show ?thesis by (simp add: filter_resellable_def)
qed

lemma py_lower_str:
  "py_lower v = Some (PyStr l) \<longleftrightarrow> (\<exists>name. v = PyStr name \<and> str_lower name = l)"
  by (cases v) auto

lemma lower_names_str:
  "lower_names names = Some ns
   \<Longrightarrow> PyStr l \<in> set ns \<longleftrightarrow> (\<exists>name. PyStr name \<in> set names \<and> str_lower name = l)"
proof (induction names arbitrary: ns)
  case Nil
  then show ?case by simp
next
  case (Cons v names)
  from Cons.prems obtain l' ns' where v: "py_lower v = Some l'"
    and r: "lower_names names = Some ns'" and ns: "ns = l' # ns'"
    by (auto split: option.splits)
  have "l' = PyStr l \<longleftrightarrow> (\<exists>name. v = PyStr name \<and> str_lower name = l)"
    using v py_lower_str [of v l] by auto
  with Cons.IH [OF r] show ?case by (auto simp: ns)
qed

lemma lower_names_strings:
  "lower_names (map PyStr names) = Some (map (\<lambda>name. PyStr (str_lower name)) names)"
  by (induction names) simp_all

lemma validate_names_strings: "validate_names env (map PyStr names) = Some names"
  by (induction names) (simp_all add: as_str_def)

text \<open>
  Claim C7. Let the classifier output be a list on whose elements line 188 can call
  \<^verbatim>\<open>lower\<close>, and let the detection map be a dict (its keys are pairwise distinct).
  An entry survives the filter exactly when it is an entry of the map and some string
  of the classifier output equals its class label after lower-casing both. And the
  handler sends this: with the model loaded and the image present, when \<^verbatim>\<open>eval\<close>
  of the raw reply gives such a list and the message class accepts it, the evaluation
  result is sent, and its filtered detections are the filter of the largest instances
  by the lower-cased classifier output. Every list of strings is such a list, and is
  accepted as it is.
\<close>

theorem resellability_filter_ignores_case:
  "(distinct (map fst largest_instances) \<and> lower_names resellable_names = Some normalized
      \<longrightarrow>
      ((coords_key, class_name) \<in> set (filter_resellable normalized largest_instances)
         \<longleftrightarrow> (coords_key, class_name) \<in> set largest_instances
              \<and> (\<exists>name. PyStr name \<in> set resellable_names
                           \<and> str_lower name = str_lower class_name)))
   \<and> (gemini_model st \<noteq> None \<and> file_exists env (dr_image_path msg)
        \<and> process_image_and_objects_for_resale env
             (track_evaluator_session (dr_session_id msg) st)
             (dr_image_path msg) (dr_unique_classes msg) = (st1, raw)
        \<and> py_eval env raw = EvalValue (PyList resellable_names)
        \<and> lower_names resellable_names = Some normalized
        \<and> validate_names env resellable_names = Some resellable_items
      \<longrightarrow>
      evaluate_resellability env st msg
        = Inr (st1\<lparr>images_evaluated := images_evaluated st1 + 1\<rparr>,
               Some \<lparr>er_image_path = dr_image_path msg,
                     er_timestamp = dr_timestamp msg,
                     er_session_id = dr_session_id msg,
                     er_original_objects = dr_unique_classes msg,
                     er_resellable_items = resellable_items,
                     er_evaluation_confidence = ''high'',
                     er_gemini_raw_response = raw,
                     er_filtered_detections =
                       filter_resellable normalized (dr_largest_instances msg)\<rparr>))
   \<and> lower_names (map PyStr names) = Some (map (\<lambda>name. PyStr (str_lower name)) names)
   \<and> validate_names env (map PyStr names) = Some names"
proof (intro conjI impI)
  show "lower_names (map PyStr names) = Some (map (\<lambda>name. PyStr (str_lower name)) names)"
    by (rule lower_names_strings)
  show "validate_names env (map PyStr names) = Some names"
    by (rule validate_names_strings)
next
  assume a: "distinct (map fst largest_instances) \<and> lower_names resellable_names = Some normalized"
  then have d: "distinct (map fst largest_instances)"
    and l: "lower_names resellable_names = Some normalized" by simp_all
  show "(coords_key, class_name) \<in> set (filter_resellable normalized largest_instances)
         \<longleftrightarrow> (coords_key, class_name) \<in> set largest_instances
              \<and> (\<exists>name. PyStr name \<in> set resellable_names
                           \<and> str_lower name = str_lower class_name)"
    using filter_resellable_eq [OF d, of normalized]
      lower_names_str [OF l, of "str_lower class_name"]
    by simp
next
  assume "gemini_model st \<noteq> None \<and> file_exists env (dr_image_path msg)
        \<and> process_image_and_objects_for_resale env
             (track_evaluator_session (dr_session_id msg) st)
             (dr_image_path msg) (dr_unique_classes msg) = (st1, raw)
        \<and> py_eval env raw = EvalValue (PyList resellable_names)
        \<and> lower_names resellable_names = Some normalized
        \<and> validate_names env resellable_names = Some resellable_items"
  then show "evaluate_resellability env st msg
        = Inr (st1\<lparr>images_evaluated := images_evaluated st1 + 1\<rparr>,
               Some \<lparr>er_image_path = dr_image_path msg,
                     er_timestamp = dr_timestamp msg,
                     er_session_id = dr_session_id msg,
                     er_original_objects = dr_unique_classes msg,
                     er_resellable_items = resellable_items,
                     er_evaluation_confidence = ''high'',
                     er_gemini_raw_response = raw,
                     er_filtered_detections =
                       filter_resellable normalized (dr_largest_instances msg)\<rparr>)"
    by (simp add: evaluate_resellability_def parse_resellable_names_def)
qed

lemma str_lower_examples:
  "str_lower ''Laptop'' = ''laptop''" "str_lower ''laptop'' = ''laptop''"
  "str_lower ''bottle'' = ''bottle''" "bytes_lower ''Bottle'' = ''bottle''"
  by code_simp+

lemma example_raw_reply:
  \<open>process_image_and_objects_for_resale example_environment
       (track_evaluator_session ''session_1'' (evaluator_state example_pipeline)) path classes
     = ((evaluator_state example_pipeline)\<lparr>api_calls_made := 1\<rparr>,
        (if path = ''captures/a.jpg'' then ''["Laptop"]''
         else if path = ''captures/b.jpg'' then ''[]''
         else if path = ''captures/c.jpg'' then ''Nothing to resell.''
         else ''42''))\<close>
  by (simp add: process_image_and_objects_for_resale_def example_environment_def
      example_pipeline_def track_evaluator_session_def)

lemma example_detection_result_fields:
  "dr_image_path (example_detection_result p) = p"
  "dr_session_id (example_detection_result p) = ''session_1''"
  "dr_largest_instances (example_detection_result p)
     = [(''(0, 0, 100, 100)'', ''laptop''), (''(10, 10, 30, 30)'', ''bottle'')]"
  by (simp_all add: example_detection_result_def)

text \<open>
  The theorem at two examples. The classifier output \<^verbatim>\<open>Laptop\<close> (a string) and
  \<^verbatim>\<open>Bottle\<close> (a bytes object) against the detections \<^verbatim>\<open>laptop\<close> and \<^verbatim>\<open>bottle\<close>: the
  laptop is kept, the bottle is not, since bytes are no string. And the handler on the
  first example image, where the model answers with the list of the string
  \<^verbatim>\<open>Laptop\<close>: it sends the result with the laptop as the only filtered detection.
\<close>

theorem resellability_filter_ignores_case_witness:
  \<open>distinct (map fst [(''(0, 0, 100, 100)'', ''laptop''), (''(10, 10, 30, 30)'', ''bottle'')])
   \<and> lower_names [PyStr ''Laptop'', PyBytes ''Bottle'']
       = Some [PyStr ''laptop'', PyBytes ''bottle'']
   \<and> (''(0, 0, 100, 100)'', ''laptop'')
       \<in> set (filter_resellable [PyStr ''laptop'', PyBytes ''bottle'']
                [(''(0, 0, 100, 100)'', ''laptop''), (''(10, 10, 30, 30)'', ''bottle'')])
   \<and> (''(10, 10, 30, 30)'', ''bottle'')
       \<notin> set (filter_resellable [PyStr ''laptop'', PyBytes ''bottle'']
                [(''(0, 0, 100, 100)'', ''laptop''), (''(10, 10, 30, 30)'', ''bottle'')])
   \<and> gemini_model (evaluator_state example_pipeline) \<noteq> None
   \<and> file_exists example_environment ''captures/a.jpg''
   \<and> py_eval example_environment ''["Laptop"]'' = EvalValue (PyList [PyStr ''Laptop''])
   \<and> lower_names [PyStr ''Laptop''] = Some [PyStr ''laptop'']
   \<and> validate_names example_environment [PyStr ''Laptop''] = Some [''Laptop'']
   \<and> map_option er_filtered_detections
        (snd (projr (evaluate_resellability example_environment (evaluator_state example_pipeline)
                       (example_detection_result ''captures/a.jpg''))))
       = Some (filter_resellable [PyStr ''laptop'']
                 [(''(0, 0, 100, 100)'', ''laptop''), (''(10, 10, 30, 30)'', ''bottle'')])
   \<and> (''(0, 0, 100, 100)'', ''laptop'')
       \<in> set (filter_resellable [PyStr ''laptop'']
                [(''(0, 0, 100, 100)'', ''laptop''), (''(10, 10, 30, 30)'', ''bottle'')])\<close>
proof -
  let ?xs = "[(''(0, 0, 100, 100)'', ''laptop''), (''(10, 10, 30, 30)'', ''bottle'')]"
  have d: "distinct (map fst ?xs)" by simp
  have l2: "lower_names [PyStr ''Laptop'', PyBytes ''Bottle'']
       = Some [PyStr ''laptop'', PyBytes ''bottle'']"
    by (simp add: str_lower_examples)
  have l1: "lower_names [PyStr ''Laptop''] = Some [PyStr ''laptop'']"
    by (simp add: str_lower_examples)
  have m: "gemini_model (evaluator_state example_pipeline) \<noteq> None"
    by (simp add: example_pipeline_def)
  have f: "file_exists example_environment ''captures/a.jpg''"
    by (simp add: example_environment_def)
  have e: \<open>py_eval example_environment ''["Laptop"]'' = EvalValue (PyList [PyStr ''Laptop''])\<close>
    by (simp add: example_environment_def)
  have v: "validate_names example_environment [PyStr ''Laptop''] = Some [''Laptop'']"
    by (simp add: as_str_def)
  have p: \<open>process_image_and_objects_for_resale example_environment
       (track_evaluator_session (dr_session_id (example_detection_result ''captures/a.jpg''))
          (evaluator_state example_pipeline))
       (dr_image_path (example_detection_result ''captures/a.jpg''))
       (dr_unique_classes (example_detection_result ''captures/a.jpg''))
     = ((evaluator_state example_pipeline)\<lparr>api_calls_made := 1\<rparr>, ''["Laptop"]'')\<close>
    by (simp add: example_detection_result_fields example_raw_reply)
  note t2 = resellability_filter_ignores_case
    [of ?xs "[PyStr ''Laptop'', PyBytes ''Bottle'']" "[PyStr ''laptop'', PyBytes ''bottle'']"]
  from t2 [of "''(0, 0, 100, 100)''" "''laptop''"] d l2
  have 1: "(''(0, 0, 100, 100)'', ''laptop'')
       \<in> set (filter_resellable [PyStr ''laptop'', PyBytes ''bottle''] ?xs)"
    by (simp add: str_lower_examples)
  from t2 [of "''(10, 10, 30, 30)''" "''bottle''"] d l2
  have 2: "(''(10, 10, 30, 30)'', ''bottle'')
       \<notin> set (filter_resellable [PyStr ''laptop'', PyBytes ''bottle''] ?xs)"
    by (simp add: str_lower_examples)
  note t1 = resellability_filter_ignores_case
    [of ?xs "[PyStr ''Laptop'']" "[PyStr ''laptop'']" "''(0, 0, 100, 100)''" "''laptop''"
        "evaluator_state example_pipeline" example_environment
        "example_detection_result ''captures/a.jpg''"
        "(evaluator_state example_pipeline)\<lparr>api_calls_made := 1\<rparr>" _ "[''Laptop'']"]
  from t1 d l1 m f e v p
  have 3: "map_option er_filtered_detections
        (snd (projr (evaluate_resellability example_environment (evaluator_state example_pipeline)
                       (example_detection_result ''captures/a.jpg''))))
       = Some (filter_resellable [PyStr ''laptop''] ?xs)"
    and 4: "(''(0, 0, 100, 100)'', ''laptop'') \<in> set (filter_resellable [PyStr ''laptop''] ?xs)"
    by (simp_all add: example_detection_result_fields str_lower_examples)
  from d l2 1 2 m f e l1 v 3 4 show ?thesis by blast
qed

subsection \<open>Classifier output that is no list\<close>

text \<open>
  What the handler does with a reply that does not parse to a list, as long as
  \<^verbatim>\<open>eval\<close> raises an \<^verbatim>\<open>Exception\<close> or returns a value and leaves the handler's
  objects alone: the resellable names are empty, and the result is sent with no
  resellable items and no filtered detections.
\<close>

lemma malformed_reply_gives_empty_result:
  assumes "gemini_model st \<noteq> None" and "file_exists env (dr_image_path msg)"
    and "process_image_and_objects_for_resale env (track_evaluator_session (dr_session_id msg) st)
           (dr_image_path msg) (dr_unique_classes msg) = (st1, raw)"
    and "py_eval env raw = EvalRaised
           \<or> (py_eval env raw = EvalValue v \<and> (\<forall>vs. v \<noteq> PyList vs))"
  shows "evaluate_resellability env st msg
       = Inr (st1\<lparr>images_evaluated := images_evaluated st1 + 1\<rparr>,
              Some \<lparr>er_image_path = dr_image_path msg,
                    er_timestamp = dr_timestamp msg,
                    er_session_id = dr_session_id msg,
                    er_original_objects = dr_unique_classes msg,
                    er_resellable_items = [],
                    er_evaluation_confidence = ''high'',
                    er_gemini_raw_response = raw,
                    er_filtered_detections = []\<rparr>)"
proof -
  from assms(4) have "parse_resellable_names (py_eval env raw) = Inr []"
    by (auto simp: parse_resellable_names_def split: py_value.splits)
  with assms(1-3) show ?thesis
    by (simp add: evaluate_resellability_def filter_resellable_Nil)
qed

text \<open>
  Claim C8 asks that for every raw classifier output a failed parse gives the empty
  resellable set and the evaluation stage still sends its result. The handler parses
  with \<^verbatim>\<open>eval\<close> and catches \<^verbatim>\<open>Exception\<close> only. For the reply \<^verbatim>\<open>exit()\<close> the call of
  \<^verbatim>\<open>eval\<close> raises \<^verbatim>\<open>SystemExit\<close>, which passes the handler of line 183 and the one of
  line 225: the exception leaves \<^verbatim>\<open>evaluate_resellability\<close> and no result is sent.
\<close>

theorem exit_reply_sends_no_evaluation:
  "gemini_model (evaluator_state example_pipeline) \<noteq> None
   \<and> file_exists exit_environment (dr_image_path (example_detection_result ''captures/a.jpg''))
   \<and> gemini_reply exit_environment ''captures/a.jpg'' = GeminiReply ''exit()''
   \<and> py_eval exit_environment ''exit()'' = EvalExit
   \<and> evaluate_resellability exit_environment (evaluator_state example_pipeline)
         (example_detection_result ''captures/a.jpg'') = Inl SystemExit"
  by (simp add: evaluate_resellability_def exit_environment_def example_environment_def
      example_pipeline_def example_detection_result_def
      process_image_and_objects_for_resale_def track_evaluator_session_def
      parse_resellable_names_def)

subsection \<open>Nothing to resell\<close>

lemma evaluate_resellability_emits:
  assumes "evaluate_resellability env st msg = Inr (st', Some er)"
  shows "er_image_path er = dr_image_path msg"
    and "er_session_id er = dr_session_id msg"
    and "file_exists env (dr_image_path msg)"
  using assms
  by (auto simp: evaluate_resellability_def split: if_splits prod.splits sum.splits option.splits)

lemma process_evaluated_objects_empty:
  "file_exists env (er_image_path er) \<Longrightarrow> er_filtered_detections er = []
   \<Longrightarrow> process_evaluated_objects env st er = (track_processor_session (er_session_id er) st, None)"
  by (simp add: process_evaluated_objects_def)

lemma finalize_session_sessions:
  "map_of (sessions st) sid = Some session_data
   \<Longrightarrow> map_of (sessions (fst (finalize_session now env st sid)))
         = (map_of (sessions st))
             (sid \<mapsto> session_data\<lparr>sd_status := ''completed'', sd_end_time := Some now\<rparr>)"
  by (simp add: finalize_session_def Let_def map_of_dict_set)

lemma timeout_fold:
  assumes "distinct (map fst items)"
    and "\<forall>(k, session_data) \<in> set items. map_of (sessions st) k = Some session_data"
  shows "map_of (sessions (foldl (timeout_step current_time clock env) st items)) sid
     = (case map_of items sid of
          None \<Rightarrow> map_of (sessions st) sid
        | Some session_data \<Rightarrow>
            Some (if sd_status session_data = ''active''
                     \<and> current_time - sd_start_time session_data
                         > real_of_int (sd_duration_seconds session_data + 30)
                  then session_data\<lparr>sd_status := ''completed'', sd_end_time := Some (clock sid)\<rparr>
                  else session_data))"
  using assms
proof (induction items arbitrary: st)
  case Nil
  then show ?case by simp
next
  case (Cons item items)
  obtain k sd where item: "item = (k, sd)" by (cases item)
  let ?st1 = "timeout_step current_time clock env st (k, sd)"
  let ?expired = "sd_status sd = ''active''
                    \<and> current_time - sd_start_time sd > real_of_int (sd_duration_seconds sd + 30)"
  from Cons.prems(2) have here: "map_of (sessions st) k = Some sd" by (simp add: item)
  have s1: "map_of (sessions ?st1)
      = (map_of (sessions st))
          (k \<mapsto> (if ?expired then sd\<lparr>sd_status := ''completed'', sd_end_time := Some (clock k)\<rparr>
                   else sd))"
    using here by (auto simp: timeout_step_def finalize_session_sessions fun_eq_iff)
  from Cons.prems(1) have dist: "distinct (map fst items)" and fresh: "k \<notin> fst ` set items"
    by (auto simp: item)
  have rest: "\<forall>(k', session_data) \<in> set items. map_of (sessions ?st1) k' = Some session_data"
  proof (clarify)
    fix k' sd' assume m: "(k', sd') \<in> set items"
    with fresh have "k' \<noteq> k" by force
    moreover from Cons.prems(2) m have "map_of (sessions st) k' = Some sd'" by auto
    ultimately show "map_of (sessions ?st1) k' = Some sd'" by (simp add: s1)
  qed
  have not_in: "map_of items k = None" using fresh by (simp add: map_of_eq_None_iff)
  from Cons.IH [OF dist rest] show ?case
    by (auto simp: item s1 not_in split: option.splits)
qed

lemma session_timeout_check_sessions:
  assumes "distinct (map fst (sessions st))"
    and "map_of (sessions st) sid = Some session_data"
    and "sd_status session_data = ''active''"
    and "current_time - sd_start_time session_data
           > real_of_int (sd_duration_seconds session_data + 30)"
  shows "map_of (sessions (session_timeout_check current_time clock env st)) sid
     = Some (session_data\<lparr>sd_status := ''completed'', sd_end_time := Some (clock sid)\<rparr>)"
proof -
  have "\<forall>(k, session_data) \<in> set (sessions st). map_of (sessions st) k = Some session_data"
    using assms(1) by auto
  from timeout_fold [OF assms(1) this, of current_time clock env sid] assms(2-4)
  show ?thesis by (simp add: session_timeout_check_def)
qed

text \<open>
  Claim C2. Let the evaluator send a result with no filtered detections, for a
  session that the report coordinator holds as active. Nothing is treated as a
  failure. The crop stage takes the result and ends with zero crops: the image
  processor returns without a crop and without a message, so the delivery changes
  only the states of the evaluator and of the image processor and the coordinator's
  session keeps its crop list. The session then completes: the timeout check that
  runs after the configured duration and 30 seconds sets its status to
  \<^verbatim>\<open>completed\<close>, with the crop list, the counters and every other field as before.
\<close>

theorem nothing_resellable_session_completes:
  "evaluate_resellability env (evaluator_state w) msg = Inr (st', Some er)
   \<and> er_filtered_detections er = []
   \<and> distinct (map fst (sessions (coordinator_state w)))
   \<and> map_of (sessions (coordinator_state w)) (dr_session_id msg) = Some session_data
   \<and> sd_status session_data = ''active''
   \<and> current_time - sd_start_time session_data
        > real_of_int (sd_duration_seconds session_data + 30)
   \<longrightarrow>
     process_evaluated_objects env (processor_state w) er
       = (track_processor_session (dr_session_id msg) (processor_state w), None)
   \<and> deliver_detection_result env w msg
       = Inr (w\<lparr>evaluator_state := st',
                processor_state :=
                  track_processor_session (dr_session_id msg) (processor_state w)\<rparr>)
   \<and> map_of (sessions (session_timeout_check current_time clock env
                (coordinator_state
                   (w\<lparr>evaluator_state := st',
                      processor_state :=
                        track_processor_session (dr_session_id msg) (processor_state w)\<rparr>))))
         (dr_session_id msg)
       = Some (session_data\<lparr>sd_status := ''completed'',
                 sd_end_time := Some (clock (dr_session_id msg))\<rparr>)"
proof (intro impI, elim conjE)
  assume e: "evaluate_resellability env (evaluator_state w) msg = Inr (st', Some er)"
    and n: "er_filtered_detections er = []"
    and d: "distinct (map fst (sessions (coordinator_state w)))"
    and m: "map_of (sessions (coordinator_state w)) (dr_session_id msg) = Some session_data"
    and a: "sd_status session_data = ''active''"
    and t: "current_time - sd_start_time session_data
              > real_of_int (sd_duration_seconds session_data + 30)"
  note facts = evaluate_resellability_emits [OF e]
  from facts have x: "file_exists env (er_image_path er)" by simp
  have p: "process_evaluated_objects env (processor_state w) er
       = (track_processor_session (dr_session_id msg) (processor_state w), None)"
    using process_evaluated_objects_empty [OF x n, of "processor_state w"] facts(2) by simp
  have dl: "deliver_detection_result env w msg
       = Inr (w\<lparr>evaluator_state := st',
                processor_state :=
                  track_processor_session (dr_session_id msg) (processor_state w)\<rparr>)"
    by (simp add: deliver_detection_result_def e deliver_evaluation_result_def p)
  have c: "map_of (sessions (session_timeout_check current_time clock env (coordinator_state w)))
         (dr_session_id msg)
       = Some (session_data\<lparr>sd_status := ''completed'',
                 sd_end_time := Some (clock (dr_session_id msg))\<rparr>)"
    using d m a t by (rule session_timeout_check_sessions)
  from p dl c show "process_evaluated_objects env (processor_state w) er
       = (track_processor_session (dr_session_id msg) (processor_state w), None)
   \<and> deliver_detection_result env w msg
       = Inr (w\<lparr>evaluator_state := st',
                processor_state :=
                  track_processor_session (dr_session_id msg) (processor_state w)\<rparr>)
   \<and> map_of (sessions (session_timeout_check current_time clock env
                (coordinator_state
                   (w\<lparr>evaluator_state := st',
                      processor_state :=
                        track_processor_session (dr_session_id msg) (processor_state w)\<rparr>))))
         (dr_session_id msg)
       = Some (session_data\<lparr>sd_status := ''completed'',
                 sd_end_time := Some (clock (dr_session_id msg))\<rparr>)"
    by simp
qed

lemma example_evaluation_b:
  "evaluate_resellability example_environment (evaluator_state example_pipeline)
       (example_detection_result ''captures/b.jpg'')
     = Inr ((evaluator_state example_pipeline)\<lparr>api_calls_made := 1, images_evaluated := 1\<rparr>,
            Some \<lparr>er_image_path = ''captures/b.jpg'', er_timestamp = 1700000000,
                  er_session_id = ''session_1'',
                  er_original_objects = [''laptop'', ''bottle''],
                  er_resellable_items = [],
                  er_evaluation_confidence = ''high'',
                  er_gemini_raw_response = ''[]'',
                  er_filtered_detections = []\<rparr>)"
  by (simp add: evaluate_resellability_def example_environment_def example_pipeline_def
      example_detection_result_def process_image_and_objects_for_resale_def
      track_evaluator_session_def parse_resellable_names_def filter_resellable_Nil)

text \<open>
  The theorem at the second example image, for which the classifier returns the empty
  list. The session started at time 1 with a duration of 10 seconds; the timeout check
  at time 60 completes it, with no crop and no image counted.
\<close>

theorem nothing_resellable_session_completes_witness:
  "map_option er_filtered_detections
     (snd (projr (evaluate_resellability example_environment (evaluator_state example_pipeline)
                    (example_detection_result ''captures/b.jpg'')))) = Some []
   \<and> distinct (map fst (sessions (coordinator_state example_pipeline)))
   \<and> map_of (sessions (coordinator_state example_pipeline)) ''session_1''
       = Some example_session_data
   \<and> sd_status example_session_data = ''active''
   \<and> 60 - sd_start_time example_session_data
        > real_of_int (sd_duration_seconds example_session_data + 30)
   \<and> deliver_detection_result example_environment example_pipeline
         (example_detection_result ''captures/b.jpg'')
       = Inr (example_pipeline
                \<lparr>evaluator_state :=
                   (evaluator_state example_pipeline)\<lparr>api_calls_made := 1, images_evaluated := 1\<rparr>\<rparr>)
   \<and> map_option (\<lambda>session_data. (sd_status session_data, sd_cropped_files session_data,
                     sd_images_processed session_data, sd_end_time session_data))
        (map_of (sessions (session_timeout_check 60 (\<lambda>sid. 61) example_environment
                   (coordinator_state
                      (projr (deliver_detection_result example_environment example_pipeline
                                (example_detection_result ''captures/b.jpg''))))))
           ''session_1'')
       = Some (''completed'', [], 0, Some 61)"
proof -
  let ?st = "(evaluator_state example_pipeline)\<lparr>api_calls_made := 1, images_evaluated := 1\<rparr>"
  let ?er = "\<lparr>er_image_path = ''captures/b.jpg'', er_timestamp = 1700000000,
        er_session_id = ''session_1'', er_original_objects = [''laptop'', ''bottle''],
        er_resellable_items = [], er_evaluation_confidence = ''high'',
        er_gemini_raw_response = ''[]'', er_filtered_detections = []\<rparr>"
  have n: "er_filtered_detections ?er = []" by simp
  have d: "distinct (map fst (sessions (coordinator_state example_pipeline)))"
    and m: "map_of (sessions (coordinator_state example_pipeline)) ''session_1''
              = Some example_session_data"
    by (simp_all add: example_pipeline_def)
  have a: "sd_status example_session_data = ''active''"
    and t: "60 - sd_start_time example_session_data
              > real_of_int (sd_duration_seconds example_session_data + 30)"
    and f: "sd_cropped_files example_session_data = []"
      "sd_images_processed example_session_data = 0"
    by (simp_all add: example_session_data_def)
  have tr: "track_processor_session ''session_1'' (processor_state example_pipeline)
              = processor_state example_pipeline"
    by (simp add: track_processor_session_def example_pipeline_def)
  have w: "example_pipeline\<lparr>evaluator_state := ?st,
              processor_state := processor_state example_pipeline\<rparr>
             = example_pipeline\<lparr>evaluator_state := ?st\<rparr>"
    by simp
  from nothing_resellable_session_completes
    [of example_environment example_pipeline "example_detection_result ''captures/b.jpg''"
        ?st ?er example_session_data 60 "\<lambda>sid. 61"]
    example_evaluation_b n d m a t
  have r: "deliver_detection_result example_environment example_pipeline
         (example_detection_result ''captures/b.jpg'')
       = Inr (example_pipeline\<lparr>evaluator_state := ?st\<rparr>)"
    and c: "map_of (sessions (session_timeout_check 60 (\<lambda>sid. 61) example_environment
                   (coordinator_state (example_pipeline\<lparr>evaluator_state := ?st\<rparr>))))
           ''session_1''
       = Some (example_session_data\<lparr>sd_status := ''completed'', sd_end_time := Some 61\<rparr>)"
    by (simp_all add: example_detection_result_fields tr w)
  from c have c': "map_of (sessions (session_timeout_check 60 (\<lambda>sid. 61) example_environment
                   (coordinator_state example_pipeline))) ''session_1''
       = Some (example_session_data\<lparr>sd_status := ''completed'', sd_end_time := Some 61\<rparr>)"
    by simp
  have 1: "map_option er_filtered_detections
     (snd (projr (evaluate_resellability example_environment (evaluator_state example_pipeline)
                    (example_detection_result ''captures/b.jpg'')))) = Some []"
    by (simp add: example_evaluation_b)
  have 2: "map_option (\<lambda>session_data. (sd_status session_data, sd_cropped_files session_data,
                     sd_images_processed session_data, sd_end_time session_data))
        (map_of (sessions (session_timeout_check 60 (\<lambda>sid. 61) example_environment
                   (coordinator_state
                      (projr (deliver_detection_result example_environment example_pipeline
                                (example_detection_result ''captures/b.jpg''))))))
           ''session_1'')
       = Some (''completed'', [], 0, Some 61)"
    by (simp add: r c' f)
  from 1 d m a t r 2 show ?thesis by blast
qed

subsection \<open>The detector is not available\<close>

text \<open>
  Claim C4, as stated, asks that the session of the image ends as failed, with a reason
  that names the detector. In the camera pipeline the detection agent without a loaded
  model returns at its first guard: delivering a captured image changes no state of
  any agent and sends nothing, and the session of the report coordinator stays active.
\<close>

theorem missing_model_records_no_failure:
  "yolo_model (detection_state pipeline_without_detector) = None
   \<and> process_captured_image example_environment (detection_state pipeline_without_detector)
         example_captured_image
       = (detection_state pipeline_without_detector, None)
   \<and> deliver_captured_image example_environment pipeline_without_detector example_captured_image
       = Inr pipeline_without_detector
   \<and> \<not> recorded_as_failed pipeline_without_detector (ci_session_id example_captured_image)
   \<and> map_option sd_status
        (map_of (sessions (coordinator_state pipeline_without_detector))
           (ci_session_id example_captured_image)) = Some ''active''"
proof -
  have y: "yolo_model (detection_state pipeline_without_detector) = None"
    by (simp add: pipeline_without_detector_def)
  have p: "process_captured_image example_environment (detection_state pipeline_without_detector)
         example_captured_image = (detection_state pipeline_without_detector, None)"
    by (simp add: process_captured_image_def y)
  have d: "deliver_captured_image example_environment pipeline_without_detector
         example_captured_image = Inr pipeline_without_detector"
    by (simp add: deliver_captured_image_def p)
  have c: "sessions (coordinator_state pipeline_without_detector)
             = [(''session_1'', example_session_data)]"
    "ci_session_id example_captured_image = ''session_1''"
    "sd_status example_session_data = ''active''"
    by (simp_all add: pipeline_without_detector_def example_pipeline_def
        example_captured_image_def example_session_data_def)
  from y p d c show ?thesis by (simp add: recorded_as_failed_def)
qed

lemma unavailable_api_answer:
  assumes "\<not> (if current_time - last_health_check st > 300 then periodic_check world
              else api_healthy st)"
    and "\<not> retry_check world"
  shows "snd (process_image_recognition current_time world st sender req)
           = [ResultTo sender (recognition_error req ''Image Recognition API is not available'')]"
  using assms by (simp add: process_image_recognition_def Let_def split: if_splits)

lemma failed_recognition_finalizes:
  assumes "map_of (active_sessions pst) (irq_session_id req) = Some session"
    and "\<not> completed session"
  shows "handle_image_recognition_result now pst (recognition_error req text)
     = (put_session (irq_session_id req)
          (session\<lparr>image_recognition_result := Some (recognition_error req text),
             steps_completed := steps_completed session @ [''image_recognition_completed''],
             completed := True\<rparr>)
          (pst\<lparr>failed_sessions := failed_sessions pst + 1\<rparr>),
        Some \<lparr>res_session_id = cpr_session_id (request session),
              res_success = False,
              res_steps_completed = steps_completed session @ [''image_recognition_completed''],
              res_image_recognition = Some (recognition_error req text),
              res_price_research = price_research_result session,
              res_listing_creation = listing_creation_result session,
              res_error_message = Some (''Image recognition failed: '' @ text),
              res_total_execution_time_ms =
                Some (py_trunc ((now - start_time session) * 1000))\<rparr>)"
  using assms
  by (simp add: handle_image_recognition_result_def recognition_error_def Let_def
      finalize_stored_def finalize_pipeline_session_def str_optional_def)

text \<open>
  Claim C4, amended. The two detectors fail in two ways. The detection agent of the
  camera pipeline, without a loaded model, returns without a message and without a
  change of state: no later stage is asked, and no session is marked as failed. The
  image recognition agent, when the recognition API is not healthy and the repeated
  check fails too, sends exactly one message, the failure result with the text
  \<^verbatim>\<open>Image Recognition API is not available\<close>, to the sender and no price research
  request; the pipeline coordinator, receiving it for a stored session that is not
  completed, completes the session, counts it as failed and composes a result without
  success whose reason is \<^verbatim>\<open>Image recognition failed: Image Recognition API is not available\<close>.
\<close>

theorem unavailable_detector:
  "(yolo_model (detection_state w) = None \<longrightarrow>
      process_captured_image env (detection_state w) img = (detection_state w, None)
      \<and> deliver_captured_image env w img = Inr w)
   \<and> (\<not> (if current_time - last_health_check st > 300 then periodic_check world
            else api_healthy st)
        \<and> \<not> retry_check world \<longrightarrow>
      snd (process_image_recognition current_time world st sender req)
        = [ResultTo sender (recognition_error req ''Image Recognition API is not available'')]
      \<and> filter is_price_request
           (snd (process_image_recognition current_time world st sender req)) = [])
   \<and> (map_of (active_sessions pst) (irq_session_id req) = Some session
        \<and> \<not> completed session \<longrightarrow>
      handle_image_recognition_result now pst
          (recognition_error req ''Image Recognition API is not available'')
        = (put_session (irq_session_id req)
             (session\<lparr>image_recognition_result :=
                         Some (recognition_error req ''Image Recognition API is not available''),
                steps_completed := steps_completed session @ [''image_recognition_completed''],
                completed := True\<rparr>)
             (pst\<lparr>failed_sessions := failed_sessions pst + 1\<rparr>),
           Some \<lparr>res_session_id = cpr_session_id (request session),
                 res_success = False,
                 res_steps_completed =
                   steps_completed session @ [''image_recognition_completed''],
                 res_image_recognition =
                   Some (recognition_error req ''Image Recognition API is not available''),
                 res_price_research = price_research_result session,
                 res_listing_creation = listing_creation_result session,
                 res_error_message =
                   Some ''Image recognition failed: Image Recognition API is not available'',
                 res_total_execution_time_ms =
                   Some (py_trunc ((now - start_time session) * 1000))\<rparr>))"
proof (intro conjI impI)
  assume "yolo_model (detection_state w) = None"
  then show p: "process_captured_image env (detection_state w) img = (detection_state w, None)"
    by (simp add: process_captured_image_def)
  then show "deliver_captured_image env w img = Inr w"
    by (simp add: deliver_captured_image_def)
next
  assume a: "\<not> (if current_time - last_health_check st > 300 then periodic_check world
            else api_healthy st) \<and> \<not> retry_check world"
  then show r: "snd (process_image_recognition current_time world st sender req)
        = [ResultTo sender (recognition_error req ''Image Recognition API is not available'')]"
    using unavailable_api_answer [of current_time st world sender req] by blast
  show "filter is_price_request
           (snd (process_image_recognition current_time world st sender req)) = []"
    by (simp add: r)
next
  assume "map_of (active_sessions pst) (irq_session_id req) = Some session
        \<and> \<not> completed session"
  then show "handle_image_recognition_result now pst
          (recognition_error req ''Image Recognition API is not available'')
        = (put_session (irq_session_id req)
             (session\<lparr>image_recognition_result :=
                         Some (recognition_error req ''Image Recognition API is not available''),
                steps_completed := steps_completed session @ [''image_recognition_completed''],
                completed := True\<rparr>)
             (pst\<lparr>failed_sessions := failed_sessions pst + 1\<rparr>),
           Some \<lparr>res_session_id = cpr_session_id (request session),
                 res_success = False,
                 res_steps_completed =
                   steps_completed session @ [''image_recognition_completed''],
                 res_image_recognition =
                   Some (recognition_error req ''Image Recognition API is not available''),
                 res_price_research = price_research_result session,
                 res_listing_creation = listing_creation_result session,
                 res_error_message =
                   Some ''Image recognition failed: Image Recognition API is not available'',
                 res_total_execution_time_ms =
                   Some (py_trunc ((now - start_time session) * 1000))\<rparr>)"
    using failed_recognition_finalizes
      [of pst req session now "''Image Recognition API is not available''"]
    by simp
qed

theorem unavailable_detector_witness:
  "yolo_model (detection_state pipeline_without_detector) = None
   \<and> deliver_captured_image example_environment pipeline_without_detector example_captured_image
       = Inr pipeline_without_detector
   \<and> \<not> (if 10 - last_health_check unhealthy_recognition > 300 then periodic_check api_down
          else api_healthy unhealthy_recognition)
   \<and> \<not> retry_check api_down
   \<and> snd (process_image_recognition 10 api_down unhealthy_recognition ''coordinator''
            example_recognition_request)
       = [ResultTo ''coordinator''
            (recognition_error example_recognition_request
               ''Image Recognition API is not available'')]
   \<and> map_option completed (map_of (active_sessions started_state) ''s3'') = Some False
   \<and> map_option res_error_message
        (snd (handle_image_recognition_result 6 started_state
                (recognition_error example_recognition_request
                   ''Image Recognition API is not available'')))
       = Some (Some ''Image recognition failed: Image Recognition API is not available'')
   \<and> failed_sessions
        (fst (handle_image_recognition_result 6 started_state
                (recognition_error example_recognition_request
                   ''Image Recognition API is not available''))) = 1
   \<and> map_option completed
        (map_of (active_sessions
           (fst (handle_image_recognition_result 6 started_state
                   (recognition_error example_recognition_request
                      ''Image Recognition API is not available'')))) ''s3'') = Some True"
proof -
  let ?session = "(new_PipelineSession 5 (example_request ''s3''))
                    \<lparr>steps_completed := [''image_recognition_initiated'']\<rparr>"
  have y: "yolo_model (detection_state pipeline_without_detector) = None"
    by (simp add: pipeline_without_detector_def)
  have h: "\<not> (if 10 - last_health_check unhealthy_recognition > 300 then periodic_check api_down
          else api_healthy unhealthy_recognition)" "\<not> retry_check api_down"
    by (simp_all add: unhealthy_recognition_def api_down_def)
  have i: "irq_session_id example_recognition_request = ''s3''"
    by (simp add: example_recognition_request_def)
  have st: "started_state
      = \<lparr>active_sessions = [(''s3'', ?session)], completed_sessions = 0, failed_sessions = 0\<rparr>"
    by (simp add: started_state_def handle_complete_pipeline_request_def new_PipelineState_def
        put_session_def example_request_def new_PipelineSession_def Let_def)
  have m: "map_of (active_sessions started_state) (irq_session_id example_recognition_request)
             = Some ?session"
    by (simp add: st i)
  have c: "\<not> completed ?session" by (simp add: new_PipelineSession_def)
  have f: "failed_sessions started_state = 0" by (simp add: st)
  note t = unavailable_detector
    [of pipeline_without_detector example_environment example_captured_image 10
        unhealthy_recognition api_down "''coordinator''" example_recognition_request
        started_state ?session 6]
  from t y h m c
  have r: "deliver_captured_image example_environment pipeline_without_detector
             example_captured_image = Inr pipeline_without_detector"
    "snd (process_image_recognition 10 api_down unhealthy_recognition ''coordinator''
            example_recognition_request)
       = [ResultTo ''coordinator''
            (recognition_error example_recognition_request
               ''Image Recognition API is not available'')]"
    "handle_image_recognition_result 6 started_state
          (recognition_error example_recognition_request ''Image Recognition API is not available'')
        = (put_session (irq_session_id example_recognition_request)
             (?session\<lparr>image_recognition_result :=
                         Some (recognition_error example_recognition_request
                                 ''Image Recognition API is not available''),
                steps_completed := steps_completed ?session @ [''image_recognition_completed''],
                completed := True\<rparr>)
             (started_state\<lparr>failed_sessions := failed_sessions started_state + 1\<rparr>),
           Some \<lparr>res_session_id = cpr_session_id (request ?session),
                 res_success = False,
                 res_steps_completed =
                   steps_completed ?session @ [''image_recognition_completed''],
                 res_image_recognition =
                   Some (recognition_error example_recognition_request
                           ''Image Recognition API is not available''),
                 res_price_research = price_research_result ?session,
                 res_listing_creation = listing_creation_result ?session,
                 res_error_message =
                   Some ''Image recognition failed: Image Recognition API is not available'',
                 res_total_execution_time_ms =
                   Some (py_trunc ((6 - start_time ?session) * 1000))\<rparr>)"
    by blast+
  have s: "map_option completed (map_of (active_sessions started_state) ''s3'') = Some False"
    using m c by (simp add: i)
  show ?thesis
    using y h r(1) r(2) s by (simp add: r(3) map_of_put_session counters_put_session f i)
qed

subsection \<open>One current session in the report coordinator\<close>

lemma map_of_dict_set_other: "k' \<noteq> k \<Longrightarrow> map_of (dict_set k v d) k' = map_of d k'"
  by (simp add: map_of_dict_set)

text \<open>
  Claim C10. A processing result whose session id is not the coordinator's current
  session is dropped: the state stays as it is. So once \<^verbatim>\<open>start_system_coordination\<close>
  has made a session with another id current, a result for an earlier session is
  dropped, although that session is still stored as it was.
\<close>

theorem other_session_result_is_dropped:
  "(current_session st \<noteq> pr_session_id msg \<longrightarrow> coordinate_processing_result st msg = st)
   \<and> (pr_session_id msg \<noteq> ''session_'' @ str_int (py_trunc now) \<longrightarrow>
        coordinate_processing_result (start_system_coordination now earlier start) msg
          = start_system_coordination now earlier start
        \<and> map_of (sessions (start_system_coordination now earlier start)) (pr_session_id msg)
            = map_of (sessions earlier) (pr_session_id msg))"
  by (simp add: coordinate_processing_result_def start_system_coordination_def Let_def
      map_of_dict_set_other)

theorem other_session_result_is_dropped_witness:
  "pr_session_id example_processing_result \<noteq> ''session_'' @ str_int (py_trunc 2)
   \<and> current_session (start_system_coordination 2 (coordinator_state example_pipeline)
        \<lparr>duration_seconds = 10, max_captures = 6, cooldown_seconds = 1\<rparr>) = ''session_2''
   \<and> coordinate_processing_result
        (start_system_coordination 2 (coordinator_state example_pipeline)
           \<lparr>duration_seconds = 10, max_captures = 6, cooldown_seconds = 1\<rparr>)
        example_processing_result
       = start_system_coordination 2 (coordinator_state example_pipeline)
           \<lparr>duration_seconds = 10, max_captures = 6, cooldown_seconds = 1\<rparr>
   \<and> map_option sd_status
        (map_of (sessions (start_system_coordination 2 (coordinator_state example_pipeline)
                   \<lparr>duration_seconds = 10, max_captures = 6, cooldown_seconds = 1\<rparr>))
           ''session_1'') = Some ''active''
   \<and> sd_images_processed
        (the (map_of (sessions (coordinate_processing_result (coordinator_state example_pipeline)
                                  example_processing_result)) ''session_1'')) = 1"
proof -
  let ?start = "\<lparr>duration_seconds = 10, max_captures = 6, cooldown_seconds = 1\<rparr>"
  have "str_nat 2 = ''2''" by code_simp
  then have n: "str_int (py_trunc 2) = ''2''" by (simp add: py_trunc_def str_int_def)
  have i: "pr_session_id example_processing_result = ''session_1''"
    by (simp add: example_processing_result_def)
  have d: "pr_session_id example_processing_result \<noteq> ''session_'' @ str_int (py_trunc 2)"
    by (simp add: n i)
  have c: "current_session (start_system_coordination 2 (coordinator_state example_pipeline) ?start)
             = ''session_2''"
    by (simp add: start_system_coordination_def n Let_def)
  have s: "map_of (sessions (coordinator_state example_pipeline)) ''session_1''
             = Some example_session_data"
    "sd_status example_session_data = ''active''"
    "current_session (coordinator_state example_pipeline) = ''session_1''"
    by (simp_all add: example_pipeline_def example_session_data_def)
  have k: "sd_images_processed
        (the (map_of (sessions (coordinate_processing_result (coordinator_state example_pipeline)
                                  example_processing_result)) ''session_1'')) = 1"
    by (simp add: coordinate_processing_result_def i s map_of_dict_set example_session_data_def)
  from other_session_result_is_dropped
    [of "start_system_coordination 2 (coordinator_state example_pipeline) ?start"
        example_processing_result 2 "coordinator_state example_pipeline" ?start]
    d c s i k
  show ?thesis by simp
qed

end
